theory Spec2Isabelle
  imports Complex_Main "HOL-Library.Word"
begin

section \<open>Values\<close>

text \<open>
  The module is glue over the standard library, NumPy and (optionally) pandas. The values
  it dispatches on are modelled as one datatype of Python objects, each with its runtime
  class; the class hierarchy is the one the libraries declare, since every test of the
  module is an \<^verbatim>\<open>isinstance\<close> test.

  A floating point number is a double: a finite value, carried as the rational it
  denotes, NaN, or one of the two infinities. Every arithmetic result is rounded to the
  nearest double, ties to even, and overflows to an infinity; the sign of zero is not
  modelled.
\<close>

datatype fl = Fin rat | NaN | PosInf | NegInf

text \<open>Python's \<^verbatim>\<open>==\<close> on floats: NaN compares unequal to everything, itself included.\<close>

fun fl_eq :: "fl \<Rightarrow> fl \<Rightarrow> bool" where
  "fl_eq NaN _ = False"
| "fl_eq _ NaN = False"
| "fl_eq a b = (a = b)"

fun isnan :: "fl \<Rightarrow> bool" where
  "isnan NaN = True"
| "isnan _ = False"

fun isfinite :: "fl \<Rightarrow> bool" where
  "isfinite (Fin _) = True"
| "isfinite _ = False"

fun fl_neg :: "fl \<Rightarrow> fl" where
  "fl_neg (Fin a) = Fin (- a)"
| "fl_neg NaN = NaN"
| "fl_neg PosInf = NegInf"
| "fl_neg NegInf = PosInf"

subsection \<open>Rounding to a double\<close>

definition pow2 :: "int \<Rightarrow> rat" where
  "pow2 k = (if k \<ge> 0 then 2 ^ nat k else 1 / 2 ^ nat (- k))"

function bit_length :: "int \<Rightarrow> nat" where
  "bit_length n = (if n \<le> 0 then 0 else Suc (bit_length (n div 2)))"
  by pat_completeness auto
termination
  by (relation "measure nat") auto

declare bit_length.simps [simp del]

text \<open>The exponent of the power of two at or below a positive rational.\<close>

definition floor_log2 :: "rat \<Rightarrow> int" where
  "floor_log2 x =
     (let (n, d) = quotient_of x;
          e = int (bit_length n) - int (bit_length d)
      in if x < pow2 e then e - 1 else e)"

definition round_half_even :: "rat \<Rightarrow> int" where
  "round_half_even x =
     (let f = \<lfloor>x\<rfloor>; r = x - of_int f
      in if r < 1 / 2 then f else if r > 1 / 2 then f + 1 else if even f then f else f + 1)"

text \<open>
  The double nearest to a rational: 53 significant bits down to the exponent -1022,
  multiples of two to the power -1074 below it, an infinity from two to the power 1024
  on.
\<close>

definition to_double :: "rat \<Rightarrow> fl" where
  "to_double x =
     (if x = 0 then Fin 0
      else
        let a = \<bar>x\<bar>;
            e = floor_log2 a;
            p = (if e < - 1022 then - 1074 else e - 52);
            r = of_int (round_half_even (a / pow2 p)) * pow2 p
        in if r \<ge> pow2 1024 then (if x < 0 then NegInf else PosInf)
           else Fin (if x < 0 then - r else r))"

subsection \<open>Arithmetic\<close>

text \<open>\<^verbatim>\<open>float(n)\<close> of an integer.\<close>

definition fl_of_int :: "int \<Rightarrow> fl" where
  "fl_of_int n = to_double (of_int n)"

text \<open>True division of two Python ints, \<^verbatim>\<open>a / b\<close> with \<^verbatim>\<open>b\<close> a non-zero constant.\<close>

definition int_truediv :: "int \<Rightarrow> int \<Rightarrow> fl" where
  "int_truediv a b = to_double (of_int a / of_int b)"

fun fl_mul :: "fl \<Rightarrow> fl \<Rightarrow> fl" where
  "fl_mul NaN _ = NaN"
| "fl_mul _ NaN = NaN"
| "fl_mul (Fin a) (Fin b) = to_double (a * b)"
| "fl_mul (Fin a) x = (if a = 0 then NaN else if 0 < a then x else fl_neg x)"
| "fl_mul x (Fin b) = (if b = 0 then NaN else if 0 < b then x else fl_neg x)"
| "fl_mul PosInf x = x"
| "fl_mul NegInf x = fl_neg x"

fun fl_add :: "fl \<Rightarrow> fl \<Rightarrow> fl" where
  "fl_add NaN _ = NaN"
| "fl_add _ NaN = NaN"
| "fl_add (Fin a) (Fin b) = to_double (a + b)"
| "fl_add (Fin a) x = x"
| "fl_add x (Fin b) = x"
| "fl_add x y = (if x = y then x else NaN)"

text \<open>Division of a float by a positive constant \<open>c\<close>, itself a double.\<close>

fun fl_div_by :: "fl \<Rightarrow> rat \<Rightarrow> fl" where
  "fl_div_by (Fin a) c = to_double (a / c)"
| "fl_div_by x c = x"

subsection \<open>64-bit counts\<close>

text \<open>
  The counts of NumPy's time scalars and arrays are 64-bit integers, the least of which
  is not-a-time; a conversion between units that overflows wraps around.
\<close>

definition wrap64 :: "int \<Rightarrow> int" where
  "wrap64 x = (x + 2 ^ 63) mod 2 ^ 64 - 2 ^ 63"

definition int64_count :: "int \<Rightarrow> int option" where
  "int64_count x = (let w = wrap64 x in if w = - (2 ^ 63) then None else Some w)"

section \<open>Python objects\<close>

datatype error = ValueError | TypeError | NotImplementedError | AttributeError | BinasciiError

text \<open>Units of \<^verbatim>\<open>np.datetime64\<close> and \<^verbatim>\<open>np.timedelta64\<close>.\<close>

datatype time_unit =
  U_Y | U_M | U_W | U_D | U_h | U_m | U_s | U_ms | U_us | U_ns | U_ps | U_fs | U_as | U_generic

text \<open>
  Python objects. A \<^verbatim>\<open>datetime\<close> is year, month, day, hour, minute, second,
  microsecond (the code discards \<^verbatim>\<open>tzinfo\<close> before it computes, so it is left
  out); a \<^verbatim>\<open>timedelta\<close> is days, seconds, microseconds; the NumPy scalars are a
  64-bit count, or not-a-time (\<open>None\<close>), and a unit. A \<^verbatim>\<open>pd.Timestamp\<close> is the fields
  of the \<^verbatim>\<open>datetime\<close> it extends and a nanosecond; a \<^verbatim>\<open>pd.Timedelta\<close> is its
  \<^verbatim>\<open>value\<close> in nanoseconds; a \<^verbatim>\<open>pd.Period\<close> is represented by the \<^verbatim>\<open>value\<close>
  of its \<^verbatim>\<open>to_timestamp()\<close>, the only thing the module reads of it.
\<close>

datatype pyobj =
    PyNone
  | PyBool bool
  | PyInt int
  | PyFloat fl
  | NpFloat64 fl
  | PyComplex fl fl
  | PyStr string
  | PyDate int int int
  | PyTime int int int int
  | PyDatetime int int int int int int int
  | PyTimedelta int int int
  | NpDatetime64 "int option" time_unit
  | NpTimedelta64 "int option" time_unit
  | PdTimestamp int int int int int int int int
  | PdTimedelta int
  | PdPeriod int
  | PdNaT
  | PyList "pyobj list"

datatype py_type =
    T_NoneType | T_bool | T_int | T_float | T_np_float64 | T_complex | T_str | T_list
  | T_date | T_time | T_datetime | T_timedelta
  | T_np_datetime64 | T_np_timedelta64
  | T_pd_Timestamp | T_pd_Timedelta | T_pd_Period | T_pd_NaTType

fun type_of :: "pyobj \<Rightarrow> py_type" where
  "type_of PyNone = T_NoneType"
| "type_of (PyBool _) = T_bool"
| "type_of (PyInt _) = T_int"
| "type_of (PyFloat _) = T_float"
| "type_of (NpFloat64 _) = T_np_float64"
| "type_of (PyComplex _ _) = T_complex"
| "type_of (PyStr _) = T_str"
| "type_of (PyDate _ _ _) = T_date"
| "type_of (PyTime _ _ _ _) = T_time"
| "type_of (PyDatetime _ _ _ _ _ _ _) = T_datetime"
| "type_of (PyTimedelta _ _ _) = T_timedelta"
| "type_of (NpDatetime64 _ _) = T_np_datetime64"
| "type_of (NpTimedelta64 _ _) = T_np_timedelta64"
| "type_of (PdTimestamp _ _ _ _ _ _ _ _) = T_pd_Timestamp"
| "type_of (PdTimedelta _) = T_pd_Timedelta"
| "type_of (PdPeriod _) = T_pd_Period"
| "type_of PdNaT = T_pd_NaTType"
| "type_of (PyList _) = T_list"

text \<open>
  The classes a class inherits from, itself first: \<^verbatim>\<open>datetime\<close> extends
  \<^verbatim>\<open>date\<close>; pandas declares \<^verbatim>\<open>Timestamp\<close> and the class of \<^verbatim>\<open>NaT\<close> as
  subclasses of \<^verbatim>\<open>datetime\<close>, and \<^verbatim>\<open>Timedelta\<close> as a subclass of
  \<^verbatim>\<open>timedelta\<close>; \<^verbatim>\<open>bool\<close> extends \<^verbatim>\<open>int\<close> and the NumPy scalar
  \<^verbatim>\<open>np.float64\<close> extends \<^verbatim>\<open>float\<close>.
\<close>

fun mro :: "py_type \<Rightarrow> py_type list" where
  "mro T_datetime = [T_datetime, T_date]"
| "mro T_pd_Timestamp = [T_pd_Timestamp, T_datetime, T_date]"
| "mro T_pd_NaTType = [T_pd_NaTType, T_datetime, T_date]"
| "mro T_pd_Timedelta = [T_pd_Timedelta, T_timedelta]"
| "mro T_bool = [T_bool, T_int]"
| "mro T_np_float64 = [T_np_float64, T_float]"
| "mro t = [t]"

definition isinstance :: "pyobj \<Rightarrow> py_type list \<Rightarrow> bool" where
  "isinstance obj classes = list_ex (\<lambda>c. c \<in> set (mro (type_of obj))) classes"

text \<open>
  Objects of a pandas class exist only in a process where pandas can be imported
  (\<^verbatim>\<open>import_optional('pandas')\<close> returns the module: \<open>pd = True\<close>).
\<close>

definition pandas_object :: "pyobj \<Rightarrow> bool" where
  "pandas_object obj =
     (type_of obj \<in> set [T_pd_Timestamp, T_pd_Timedelta, T_pd_Period, T_pd_NaTType])"

section \<open>Temporal normalizer\<close>

definition compute_datetime_types :: "bool \<Rightarrow> py_type list" where
  "compute_datetime_types pd =
     [T_time, T_datetime, T_np_datetime64]
     @ (if pd then [T_pd_Timestamp, T_pd_Timedelta, T_pd_Period, T_pd_NaTType] else [])"

definition is_datetime_type :: "bool \<Rightarrow> pyobj \<Rightarrow> bool" where
  "is_datetime_type pd obj = isinstance obj (compute_datetime_types pd)"

definition is_timedelta_type :: "pyobj \<Rightarrow> bool" where
  "is_timedelta_type obj = isinstance obj [T_timedelta, T_np_timedelta64]"

subsection \<open>The standard library's calendar\<close>

text \<open>
  \<^verbatim>\<open>datetime - datetime\<close> goes through the proleptic Gregorian ordinal of each date
  (\<^verbatim>\<open>_ymd2ord\<close> of the standard library); \<^verbatim>\<open>DT_EPOCH\<close> is 1970-01-01T00:00:00,
  whose ordinal is 719163. Fields are taken in the ranges the constructors enforce.
\<close>

definition is_leap :: "int \<Rightarrow> bool" where
  "is_leap y = (y mod 4 = 0 \<and> (y mod 100 \<noteq> 0 \<or> y mod 400 = 0))"

definition days_before_year :: "int \<Rightarrow> int" where
  "days_before_year year = (let y = year - 1 in y * 365 + y div 4 - y div 100 + y div 400)"

definition days_before_month_of :: "bool \<Rightarrow> int \<Rightarrow> int" where
  "days_before_month_of leap month =
     (if month = 2 then 31 else if month = 3 then 59 else if month = 4 then 90
      else if month = 5 then 120 else if month = 6 then 151 else if month = 7 then 181
      else if month = 8 then 212 else if month = 9 then 243 else if month = 10 then 273
      else if month = 11 then 304 else if month = 12 then 334 else 0)
     + (if month > 2 \<and> leap then 1 else 0)"

definition days_before_month :: "int \<Rightarrow> int \<Rightarrow> int" where
  "days_before_month year month = days_before_month_of (is_leap year) month"

definition ymd2ord :: "int \<Rightarrow> int \<Rightarrow> int \<Rightarrow> int" where
  "ymd2ord year month day = days_before_year year + days_before_month year month + day"

definition DT_EPOCH_ordinal :: int where
  "DT_EPOCH_ordinal = ymd2ord 1970 1 1"

text \<open>\<^verbatim>\<open>(datetime(y, mo, d, h, mi, s, us) - DT_EPOCH).total_seconds()\<close>, both naive.\<close>

definition epoch_total_seconds :: "int \<Rightarrow> int \<Rightarrow> int \<Rightarrow> int \<Rightarrow> int \<Rightarrow> int \<Rightarrow> int \<Rightarrow> fl" where
  "epoch_total_seconds y mo d h mi s us =
     (let days = ymd2ord y mo d - DT_EPOCH_ordinal;
          seconds = h * 3600 + mi * 60 + s
      in int_truediv ((days * 86400 + seconds) * 10 ^ 6 + us) (10 ^ 6))"

text \<open>
  \<^verbatim>\<open>timedelta.total_seconds()\<close>: all microseconds divided by a million. A
  \<^verbatim>\<open>pd.Timedelta\<close> overrides it as days and seconds plus the microseconds divided by
  a million, which drops the nanoseconds below a microsecond.
\<close>

definition pd_total_seconds :: "int \<Rightarrow> fl" where
  "pd_total_seconds v =
     (let us = v div 1000
      in fl_add (fl_of_int (us div 10 ^ 6)) (int_truediv (us mod 10 ^ 6) (10 ^ 6)))"

fun total_seconds :: "pyobj \<Rightarrow> error + fl" where
  "total_seconds (PyTimedelta days seconds us) =
     Inr (int_truediv ((days * 86400 + seconds) * 10 ^ 6 + us) (10 ^ 6))"
| "total_seconds (PdTimedelta v) = Inr (pd_total_seconds v)"
| "total_seconds _ = Inl AttributeError"

text \<open>The \<^verbatim>\<open>value\<close> of a \<^verbatim>\<open>pd.Timestamp\<close>: nanoseconds since the epoch.\<close>

definition timestamp_value :: "int \<Rightarrow> int \<Rightarrow> int \<Rightarrow> int \<Rightarrow> int \<Rightarrow> int \<Rightarrow> int \<Rightarrow> int \<Rightarrow> int" where
  "timestamp_value y mo d h mi s us ns =
     (((ymd2ord y mo d - DT_EPOCH_ordinal) * 86400 + h * 3600 + mi * 60 + s) * 10 ^ 6 + us) * 1000 + ns"

subsection \<open>NumPy's time scalars\<close>

text \<open>
  The length of a unit in attoseconds, for the units that have a fixed length. Years and
  months have none: NumPy converts a \<^verbatim>\<open>datetime64\<close> in years or months through the
  calendar, and refuses to bring a \<^verbatim>\<open>timedelta64\<close> in years or months to a common
  unit with one in milliseconds (\<^verbatim>\<open>TypeError\<close>). A count with the generic unit takes
  the unit of the other operand.
\<close>

fun unit_attoseconds :: "time_unit \<Rightarrow> int option" where
  "unit_attoseconds U_W = Some (604800 * 10 ^ 18)"
| "unit_attoseconds U_D = Some (86400 * 10 ^ 18)"
| "unit_attoseconds U_h = Some (3600 * 10 ^ 18)"
| "unit_attoseconds U_m = Some (60 * 10 ^ 18)"
| "unit_attoseconds U_s = Some (10 ^ 18)"
| "unit_attoseconds U_ms = Some (10 ^ 15)"
| "unit_attoseconds U_us = Some (10 ^ 12)"
| "unit_attoseconds U_ns = Some (10 ^ 9)"
| "unit_attoseconds U_ps = Some (10 ^ 6)"
| "unit_attoseconds U_fs = Some (10 ^ 3)"
| "unit_attoseconds U_as = Some 1"
| "unit_attoseconds _ = None"

text \<open>
  A count and \<^verbatim>\<open>NP_MS_DELTA\<close> brought to their common unit, the finer of the two: a
  count in a unit coarser than a millisecond is multiplied, in 64 bits; for a finer unit
  the millisecond is. The result is the numerator and the denominator of the division.
\<close>

definition common_with_ms :: "int \<Rightarrow> time_unit \<Rightarrow> int \<times> int" where
  "common_with_ms n u =
     (case unit_attoseconds u of
        None \<Rightarrow> (n, 1)
      | Some a \<Rightarrow> if a \<ge> 10 ^ 15 then (wrap64 (n * (a div 10 ^ 15)), 1) else (n, 10 ^ 15 div a))"

text \<open>
  The division of two \<^verbatim>\<open>timedelta64\<close> in a common unit: NaN if the numerator is
  not-a-time, otherwise the quotient of the two counts as doubles.
\<close>

definition timedelta64_ratio :: "int \<times> int \<Rightarrow> fl" where
  "timedelta64_ratio p =
     (if fst p = - (2 ^ 63) then NaN else fl_div_by (fl_of_int (fst p)) (of_int (snd p)))"

text \<open>\<^verbatim>\<open>float(obj / NP_MS_DELTA)\<close> for a \<^verbatim>\<open>timedelta64\<close> count and unit.\<close>

definition timedelta64_div_ms :: "int option \<Rightarrow> time_unit \<Rightarrow> error + fl" where
  "timedelta64_div_ms v u =
     (if u = U_Y \<or> u = U_M then Inl TypeError
      else case v of
        None \<Rightarrow> Inr NaN
      | Some n \<Rightarrow> Inr (timedelta64_ratio (common_with_ms n u)))"

text \<open>
  \<^verbatim>\<open>float((obj - NP_EPOCH) / NP_MS_DELTA)\<close> for a \<^verbatim>\<open>datetime64\<close> count and unit:
  years and months since 1970-01 are days through the calendar.
\<close>

definition datetime64_epoch_ms :: "int option \<Rightarrow> time_unit \<Rightarrow> fl" where
  "datetime64_epoch_ms v u =
     (case v of
        None \<Rightarrow> NaN
      | Some n \<Rightarrow>
          if u = U_Y then
            timedelta64_ratio (wrap64 ((ymd2ord (1970 + n) 1 1 - DT_EPOCH_ordinal) * 86400000), 1)
          else if u = U_M then
            timedelta64_ratio
              (wrap64 ((ymd2ord (1970 + n div 12) (1 + n mod 12) 1 - DT_EPOCH_ordinal) * 86400000), 1)
          else timedelta64_ratio (common_with_ms n u))"

subsection \<open>Scalar conversions\<close>

text \<open>
  \<^verbatim>\<open>convert_date_to_datetime\<close>: the first six fields of \<^verbatim>\<open>obj.timetuple()\<close>, so the
  microsecond of a \<^verbatim>\<open>datetime\<close> is dropped; \<^verbatim>\<open>NaT\<close> refuses \<^verbatim>\<open>timetuple\<close>, and
  an object that is no date has no such method.
\<close>

fun convert_date_to_datetime :: "pyobj \<Rightarrow> error + fl" where
  "convert_date_to_datetime (PyDate y mo d) =
     Inr (fl_mul (epoch_total_seconds y mo d 0 0 0 0) (Fin 1000))"
| "convert_date_to_datetime (PyDatetime y mo d h mi s us) =
     Inr (fl_mul (epoch_total_seconds y mo d h mi s 0) (Fin 1000))"
| "convert_date_to_datetime (PdTimestamp y mo d h mi s us ns) =
     Inr (fl_mul (epoch_total_seconds y mo d h mi s 0) (Fin 1000))"
| "convert_date_to_datetime PdNaT = Inl ValueError"
| "convert_date_to_datetime _ = Inl AttributeError"

definition convert_timedelta_type :: "pyobj \<Rightarrow> error + fl" where
  "convert_timedelta_type obj =
     (if isinstance obj [T_timedelta] then
        (case total_seconds obj of Inl e \<Rightarrow> Inl e | Inr t \<Rightarrow> Inr (fl_mul t (Fin 1000)))
      else if isinstance obj [T_np_timedelta64] then
        (case obj of NpTimedelta64 v u \<Rightarrow> timedelta64_div_ms v u | _ \<Rightarrow> Inl AttributeError)
      else Inl ValueError)"

text \<open>
  \<^verbatim>\<open>obj.replace(tzinfo=None) - DT_EPOCH\<close>, then \<^verbatim>\<open>total_seconds() * 1000\<close>, on an
  instance of \<^verbatim>\<open>datetime\<close>: for a \<^verbatim>\<open>pd.Timestamp\<close> the difference is a
  \<^verbatim>\<open>pd.Timedelta\<close>, for \<^verbatim>\<open>NaT\<close> it is \<^verbatim>\<open>NaT\<close>, whose \<^verbatim>\<open>total_seconds()\<close>
  is NaN.
\<close>

fun datetime_epoch_ms :: "pyobj \<Rightarrow> error + fl" where
  "datetime_epoch_ms (PyDatetime y mo d h mi s us) =
     Inr (fl_mul (epoch_total_seconds y mo d h mi s us) (Fin 1000))"
| "datetime_epoch_ms (PdTimestamp y mo d h mi s us ns) =
     Inr (fl_mul (pd_total_seconds (timestamp_value y mo d h mi s us ns)) (Fin 1000))"
| "datetime_epoch_ms PdNaT = Inr (fl_mul NaN (Fin 1000))"
| "datetime_epoch_ms _ = Inl AttributeError"

definition convert_datetime_type :: "bool \<Rightarrow> pyobj \<Rightarrow> error + fl" where
  "convert_datetime_type pd obj =
     (if pd \<and> obj = PdNaT then Inr NaN
      else if pd \<and> isinstance obj [T_pd_Period] then
        (case obj of PdPeriod v \<Rightarrow> Inr (fl_div_by (fl_of_int v) (10 ^ 6)) | _ \<Rightarrow> Inl AttributeError)
      else if pd \<and> isinstance obj [T_pd_Timestamp] then
        (case obj of PdTimestamp y mo d h mi s us ns \<Rightarrow>
           Inr (fl_div_by (fl_of_int (timestamp_value y mo d h mi s us ns)) (10 ^ 6))
         | _ \<Rightarrow> Inl AttributeError)
      else if pd \<and> isinstance obj [T_pd_Timedelta] then
        (case obj of PdTimedelta v \<Rightarrow> Inr (fl_div_by (fl_of_int v) (10 ^ 6)) | _ \<Rightarrow> Inl AttributeError)
      else if isinstance obj [T_datetime] then datetime_epoch_ms obj
      else if isinstance obj [T_date] then convert_date_to_datetime obj
      else if isinstance obj [T_np_datetime64] then
        (case obj of NpDatetime64 v u \<Rightarrow> Inr (datetime64_epoch_ms v u) | _ \<Rightarrow> Inl AttributeError)
      else if isinstance obj [T_time] then
        (case obj of PyTime h mi s us \<Rightarrow>
           Inr (fl_add (fl_of_int ((h * 3600 + mi * 60 + s) * 1000)) (fl_div_by (fl_of_int us) 1000))
         | _ \<Rightarrow> Inl AttributeError)
      else Inl ValueError)"

section \<open>Arrays\<close>

text \<open>
  The element types of NumPy arrays, in the machine's byte order. \<^verbatim>\<open>dtype.kind\<close> and
  \<^verbatim>\<open>dtype.itemsize\<close> are NumPy's.
\<close>

datatype np_dtype =
    D_bool
  | D_int8 | D_int16 | D_int32 | D_int64
  | D_uint8 | D_uint16 | D_uint32 | D_uint64
  | D_float16 | D_float32 | D_float64
  | D_complex64 | D_complex128
  | D_object
  | D_datetime64 time_unit
  | D_timedelta64 time_unit

fun kind :: "np_dtype \<Rightarrow> char" where
  "kind D_bool = CHR ''b''"
| "kind D_int8 = CHR ''i''"
| "kind D_int16 = CHR ''i''"
| "kind D_int32 = CHR ''i''"
| "kind D_int64 = CHR ''i''"
| "kind D_uint8 = CHR ''u''"
| "kind D_uint16 = CHR ''u''"
| "kind D_uint32 = CHR ''u''"
| "kind D_uint64 = CHR ''u''"
| "kind D_float16 = CHR ''f''"
| "kind D_float32 = CHR ''f''"
| "kind D_float64 = CHR ''f''"
| "kind D_complex64 = CHR ''c''"
| "kind D_complex128 = CHR ''c''"
| "kind D_object = CHR ''O''"
| "kind (D_datetime64 _) = CHR ''M''"
| "kind (D_timedelta64 _) = CHR ''m''"

fun itemsize :: "np_dtype \<Rightarrow> nat" where
  "itemsize D_bool = 1"
| "itemsize D_int8 = 1"
| "itemsize D_int16 = 2"
| "itemsize D_int32 = 4"
| "itemsize D_int64 = 8"
| "itemsize D_uint8 = 1"
| "itemsize D_uint16 = 2"
| "itemsize D_uint32 = 4"
| "itemsize D_uint64 = 8"
| "itemsize D_float16 = 2"
| "itemsize D_float32 = 4"
| "itemsize D_float64 = 8"
| "itemsize D_complex64 = 8"
| "itemsize D_complex128 = 16"
| "itemsize D_object = 8"
| "itemsize (D_datetime64 _) = 8"
| "itemsize (D_timedelta64 _) = 8"

text \<open>
  An element: a boolean, an integer, a float, a complex number, a 64-bit time count
  (\<open>None\<close> is not-a-time), or a Python object.
\<close>

datatype elem =
    E_bool bool
  | E_int int
  | E_float fl
  | E_complex fl fl
  | E_time "int option"
  | E_obj pyobj

text \<open>
  An array is its dtype, its shape, its elements in row-major (logical) order and the
  \<^verbatim>\<open>C_CONTIGUOUS\<close> flag; strides are not modelled beyond that flag. A
  \<^verbatim>\<open>np.ma.MaskedArray\<close> is an array and its mask: \<open>None\<close> is \<^verbatim>\<open>nomask\<close>, otherwise
  one boolean for each element.
\<close>

record ndarray =
  dtype :: np_dtype
  shape :: "nat list"
  elems :: "elem list"
  c_contiguous :: bool

datatype np_array = NDArray ndarray | MaskedArray ndarray "bool list option"

fun data_of :: "np_array \<Rightarrow> ndarray" where
  "data_of (NDArray a) = a"
| "data_of (MaskedArray a m) = a"

fun is_masked_array :: "np_array \<Rightarrow> bool" where
  "is_masked_array (NDArray a) = False"
| "is_masked_array (MaskedArray a m) = True"

fun with_data :: "np_array \<Rightarrow> ndarray \<Rightarrow> np_array" where
  "with_data (NDArray _) b = NDArray b"
| "with_data (MaskedArray _ m) b = MaskedArray b m"

text \<open>What a function of the module is handed: an array, or any other object.\<close>

datatype pyval = Obj pyobj | Arr np_array

section \<open>Binary buffer codec: eligible dtypes\<close>

definition BINARY_ARRAY_TYPES :: "np_dtype set" where
  "BINARY_ARRAY_TYPES =
     {D_float32, D_float64, D_uint8, D_int8, D_uint16, D_int16, D_uint32, D_int32}"

definition array_encoding_disabled :: "np_array \<Rightarrow> bool" where
  "array_encoding_disabled array = (dtype (data_of array) \<notin> BINARY_ARRAY_TYPES)"

section \<open>Array normalization\<close>

subsection \<open>NumPy's casts between time units\<close>

text \<open>
  A count scaled from its unit to microseconds: multiplied, in 64 bits, from a coarser
  unit, divided towards minus infinity from a finer one; the generic unit takes the new
  unit as it is.
\<close>

definition scale_to_us :: "time_unit \<Rightarrow> int \<Rightarrow> int option" where
  "scale_to_us u n =
     (case unit_attoseconds u of
        None \<Rightarrow> Some n
      | Some a \<Rightarrow>
          if a \<ge> 10 ^ 12 then int64_count (n * (a div 10 ^ 12)) else Some (n div (10 ^ 12 div a)))"

text \<open>
  \<^verbatim>\<open>astype('datetime64[us]')\<close> on a \<^verbatim>\<open>datetime64\<close> count: years and months go
  through the calendar, the other units scale; not-a-time stays.
\<close>

definition cast_datetime64_us :: "time_unit \<Rightarrow> int option \<Rightarrow> int option" where
  "cast_datetime64_us u v =
     (case v of
        None \<Rightarrow> None
      | Some n \<Rightarrow>
          if u = U_Y then
            int64_count ((ymd2ord (1970 + n) 1 1 - DT_EPOCH_ordinal) * 86400 * 10 ^ 6)
          else if u = U_M then
            int64_count ((ymd2ord (1970 + n div 12) (1 + n mod 12) 1 - DT_EPOCH_ordinal) * 86400 * 10 ^ 6)
          else scale_to_us u n)"

text \<open>
  \<^verbatim>\<open>astype('timedelta64[us]')\<close> on a \<^verbatim>\<open>timedelta64\<close> count: the unsafe cast that
  \<^verbatim>\<open>astype\<close> performs converts years and months by the mean length of a Gregorian
  year (146097 days in 400 years, so 146097 * 216 seconds a year and 146097 * 18 a
  month).
\<close>

definition cast_timedelta64_us :: "time_unit \<Rightarrow> int option \<Rightarrow> int option" where
  "cast_timedelta64_us u v =
     (case v of
        None \<Rightarrow> None
      | Some n \<Rightarrow>
          if u = U_Y then int64_count (n * (146097 * 216 * 10 ^ 6))
          else if u = U_M then int64_count (n * (146097 * 18 * 10 ^ 6))
          else scale_to_us u n)"

fun time_unit_of :: "np_dtype \<Rightarrow> time_unit" where
  "time_unit_of (D_datetime64 u) = u"
| "time_unit_of (D_timedelta64 u) = u"
| "time_unit_of _ = U_generic"

fun time_count :: "elem \<Rightarrow> int option" where
  "time_count (E_time v) = v"
| "time_count _ = None"

definition astype_datetime64_us :: "np_array \<Rightarrow> np_array" where
  "astype_datetime64_us array =
     (let a = data_of array in
      with_data array (a\<lparr>dtype := D_datetime64 U_us,
        elems := map (\<lambda>e. E_time (cast_datetime64_us (time_unit_of (dtype a)) (time_count e))) (elems a)\<rparr>))"

definition astype_timedelta64_us :: "np_array \<Rightarrow> np_array" where
  "astype_timedelta64_us array =
     (let a = data_of array in
      with_data array (a\<lparr>dtype := D_timedelta64 U_us,
        elems := map (\<lambda>e. E_time (cast_timedelta64_us (time_unit_of (dtype a)) (time_count e))) (elems a)\<rparr>))"

text \<open>
  \<^verbatim>\<open>astype('datetime64[us]')\<close> on an array of objects converts each object, and raises
  where one cannot be converted. Which objects NumPy converts (dates, strings it can
  parse, ...) is NumPy's business: the conversion of one object is a parameter of the
  model, and the theorems hold for every such conversion.
\<close>

fun convert_objects :: "(pyobj \<Rightarrow> error + int option) \<Rightarrow> elem list \<Rightarrow> error + elem list" where
  "convert_objects conv [] = Inr []"
| "convert_objects conv (e # es) =
     (case (case e of E_obj x \<Rightarrow> conv x | _ \<Rightarrow> Inl TypeError) of
        Inl err \<Rightarrow> Inl err
      | Inr v \<Rightarrow> (case convert_objects conv es of Inl err \<Rightarrow> Inl err | Inr vs \<Rightarrow> Inr (E_time v # vs)))"

definition object_astype_datetime64_us ::
    "(pyobj \<Rightarrow> error + int option) \<Rightarrow> np_array \<Rightarrow> error + np_array" where
  "object_astype_datetime64_us conv array =
     (let a = data_of array in
      case convert_objects conv (elems a) of
        Inl err \<Rightarrow> Inl err
      | Inr es \<Rightarrow> Inr (with_data array (a\<lparr>dtype := D_datetime64 U_us, elems := es\<rparr>)))"

text \<open>\<^verbatim>\<open>astype('int64')\<close> on time counts: not-a-time is the least 64-bit integer.\<close>

definition astype_int64 :: "np_array \<Rightarrow> np_array" where
  "astype_int64 array =
     (let a = data_of array in
      with_data array (a\<lparr>dtype := D_int64,
        elems := map (\<lambda>e. E_int (case time_count e of None \<Rightarrow> - (2 ^ 63) | Some n \<Rightarrow> n)) (elems a)\<rparr>))"

fun int_value :: "elem \<Rightarrow> int" where
  "int_value (E_int n) = n"
| "int_value _ = 0"

text \<open>The one element of an array without dimensions, and whether it is masked.\<close>

fun scalar_value :: "elem list \<Rightarrow> int" where
  "scalar_value (e # _) = int_value e"
| "scalar_value [] = 0"

fun scalar_masked :: "bool list \<Rightarrow> bool" where
  "scalar_masked (b # _) = b"
| "scalar_masked [] = False"

text \<open>
  \<^verbatim>\<open>array / 1000.0\<close> on an \<^verbatim>\<open>int64\<close> array. On an array without dimensions the
  division returns a \<^verbatim>\<open>np.float64\<close> scalar, not an array. On a masked array the
  division is NumPy's masked \<^verbatim>\<open>true_divide\<close>: the mask of the result is an array
  (all false where the operand had \<^verbatim>\<open>nomask\<close>), the data under the mask are the
  operand's, undivided, and without dimensions the result is the unmasked scalar or the
  \<^verbatim>\<open>masked\<close> constant.
\<close>

definition masked_constant :: np_array where
  "masked_constant =
     MaskedArray \<lparr>dtype = D_float64, shape = [], elems = [E_float (Fin 0)], c_contiguous = True\<rparr>
       (Some [True])"

fun true_divide_1000 :: "np_array \<Rightarrow> pyval" where
  "true_divide_1000 (NDArray a) =
     (if shape a = [] then Obj (NpFloat64 (fl_div_by (fl_of_int (scalar_value (elems a))) 1000))
      else Arr (NDArray (a\<lparr>dtype := D_float64,
             elems := map (\<lambda>e. E_float (fl_div_by (fl_of_int (int_value e)) 1000)) (elems a)\<rparr>)))"
| "true_divide_1000 (MaskedArray a m) =
     (let msk = (case m of None \<Rightarrow> replicate (length (elems a)) False | Some bs \<Rightarrow> bs) in
      if shape a = [] then
        (if scalar_masked msk then Arr masked_constant
         else Obj (NpFloat64 (fl_div_by (fl_of_int (scalar_value (elems a))) 1000)))
      else Arr (MaskedArray (a\<lparr>dtype := D_float64,
             elems := map (\<lambda>(e, b). E_float (if b then fl_of_int (int_value e)
                                               else fl_div_by (fl_of_int (int_value e)) 1000))
                        (zip (elems a) msk)\<rparr>) (Some msk)))"

subsection \<open>\<^verbatim>\<open>convert_datetime_array\<close>\<close>

text \<open>\<^verbatim>\<open>len(array)\<close>: an array without dimensions has no length.\<close>

definition len_array :: "np_array \<Rightarrow> error + nat" where
  "len_array array = (case shape (data_of array) of [] \<Rightarrow> Inl TypeError | n # _ \<Rightarrow> Inr n)"

text \<open>
  \<^verbatim>\<open>isinstance(array[0], dt.date)\<close> for an array of objects of positive length:
  \<^verbatim>\<open>array[0]\<close> is an object only if the array has one dimension (otherwise it is a
  sub-array), and on a masked array it is the \<^verbatim>\<open>masked\<close> constant where the mask
  is set.
\<close>

fun first_is_date :: "np_array \<Rightarrow> bool" where
  "first_is_date (NDArray a) =
     (case (shape a, elems a) of ([n], E_obj x # _) \<Rightarrow> isinstance x [T_date] | _ \<Rightarrow> False)"
| "first_is_date (MaskedArray a m) =
     (case (shape a, elems a) of
        ([n], E_obj x # _) \<Rightarrow>
          (case m of Some (True # _) \<Rightarrow> False | _ \<Rightarrow> isinstance x [T_date])
      | _ \<Rightarrow> False)"

fun convert_datetime_array :: "(pyobj \<Rightarrow> error + int option) \<Rightarrow> pyval \<Rightarrow> error + pyval" where
  "convert_datetime_array conv (Obj x) = Inr (Obj x)"
| "convert_datetime_array conv (Arr array) =
     (if kind (dtype (data_of array)) = CHR ''M'' then
        Inr (true_divide_1000 (astype_int64 (astype_datetime64_us array)))
      else if kind (dtype (data_of array)) = CHR ''m'' then
        Inr (true_divide_1000 (astype_int64 (astype_timedelta64_us array)))
      else if kind (dtype (data_of array)) = CHR ''O'' then
        (case len_array array of
           Inl err \<Rightarrow> Inl err
         | Inr n \<Rightarrow>
             if n > 0 \<and> first_is_date array then
               (case object_astype_datetime64_us conv array of
                  Inr converted \<Rightarrow> Inr (true_divide_1000 (astype_int64 converted))
                | Inl _ \<Rightarrow> Inr (Arr array))
             else Inr (Arr array))
      else Inr (Arr array))"

section \<open>Array transform pipeline\<close>

text \<open>
  \<^verbatim>\<open>MaskedArray.filled(np.nan)\<close>: with \<^verbatim>\<open>nomask\<close> the data are returned at once;
  otherwise NaN is first converted to the dtype of the array, which raises
  \<^verbatim>\<open>TypeError\<close> for an integer dtype, and then written where the mask is set.
\<close>

fun nan_as :: "np_dtype \<Rightarrow> error + elem" where
  "nan_as d =
     (if kind d = CHR ''i'' \<or> kind d = CHR ''u'' then Inl TypeError
      else if kind d = CHR ''f'' then Inr (E_float NaN)
      else if kind d = CHR ''c'' then Inr (E_complex NaN (Fin 0))
      else if kind d = CHR ''b'' then Inr (E_bool True)
      else if kind d = CHR ''O'' then Inr (E_obj (PyFloat NaN))
      else Inr (E_time None))"

fun filled_nan :: "np_array \<Rightarrow> error + np_array" where
  "filled_nan (NDArray a) = Inl AttributeError"
| "filled_nan (MaskedArray a None) = Inr (NDArray a)"
| "filled_nan (MaskedArray a (Some msk)) =
     (case nan_as (dtype a) of
        Inl err \<Rightarrow> Inl err
      | Inr v \<Rightarrow> Inr (NDArray (a\<lparr>elems := map (\<lambda>(e, b). if b then v else e) (zip (elems a) msk)\<rparr>)))"

text \<open>
  \<^verbatim>\<open>array.flags["C_CONTIGUOUS"]\<close>: arrays and NumPy scalars have flags, and a scalar is
  contiguous.
\<close>

fun flags_c_contiguous :: "pyval \<Rightarrow> error + bool" where
  "flags_c_contiguous (Arr array) = Inr (c_contiguous (data_of array))"
| "flags_c_contiguous (Obj (NpFloat64 _)) = Inr True"
| "flags_c_contiguous (Obj _) = Inl AttributeError"

text \<open>\<^verbatim>\<open>np.ascontiguousarray\<close> of an array: a plain array of at least one dimension.\<close>

definition ascontiguousarray :: "np_array \<Rightarrow> np_array" where
  "ascontiguousarray array =
     (let a = data_of array in
      NDArray (a\<lparr>shape := (if shape a = [] then [1] else shape a), c_contiguous := True\<rparr>))"

definition transform_array :: "(pyobj \<Rightarrow> error + int option) \<Rightarrow> np_array \<Rightarrow> error + pyval" where
  "transform_array conv array0 =
     (case convert_datetime_array conv (Arr array0) of
        Inl err \<Rightarrow> Inl err
      | Inr array1 \<Rightarrow>
          (case (case array1 of
                   Arr (MaskedArray a m) \<Rightarrow>
                     (case filled_nan (MaskedArray a m) of
                        Inl err \<Rightarrow> Inl err
                      | Inr filled \<Rightarrow> Inr (Arr filled))
                 | _ \<Rightarrow> Inr array1) of
             Inl err \<Rightarrow> Inl err
           | Inr array2 \<Rightarrow>
               (case flags_c_contiguous array2 of
                  Inl err \<Rightarrow> Inl err
                | Inr c \<Rightarrow>
                    if \<not> c then
                      (case array2 of Arr a \<Rightarrow> Inr (Arr (ascontiguousarray a)) | _ \<Rightarrow> Inr array2)
                    else Inr array2)))"

text \<open>
  One conversion of an object to \<^verbatim>\<open>datetime64[us]\<close>, for evaluating the functions
  on arrays of dates: dates and datetimes by the calendar, \<^verbatim>\<open>None\<close> as not-a-time,
  every other object refused.
\<close>

fun date_to_datetime64_us :: "pyobj \<Rightarrow> error + int option" where
  "date_to_datetime64_us (PyDate y mo d) =
     Inr (Some ((ymd2ord y mo d - DT_EPOCH_ordinal) * 86400 * 10 ^ 6))"
| "date_to_datetime64_us (PyDatetime y mo d h mi s us) =
     Inr (Some (((ymd2ord y mo d - DT_EPOCH_ordinal) * 86400 + h * 3600 + mi * 60 + s) * 10 ^ 6 + us))"
| "date_to_datetime64_us PyNone = Inr None"
| "date_to_datetime64_us _ = Inl ValueError"

subsection \<open>What a caller can observe of a result\<close>

text \<open>
  The dtype of an array or of a NumPy scalar, whether a value is a masked array, and
  whether a dtype is temporal (\<^verbatim>\<open>datetime64\<close> or \<^verbatim>\<open>timedelta64\<close>).
\<close>

fun result_dtype :: "pyval \<Rightarrow> np_dtype option" where
  "result_dtype (Arr array) = Some (dtype (data_of array))"
| "result_dtype (Obj (NpFloat64 _)) = Some D_float64"
| "result_dtype (Obj _) = None"

fun has_mask :: "pyval \<Rightarrow> bool" where
  "has_mask (Arr array) = is_masked_array array"
| "has_mask (Obj _) = False"

definition temporal :: "np_dtype \<Rightarrow> bool" where
  "temporal d = (kind d = CHR ''M'' \<or> kind d = CHR ''m'')"

definition has_temporal_dtype :: "pyval \<Rightarrow> bool" where
  "has_temporal_dtype v = (case result_dtype v of None \<Rightarrow> False | Some d \<Rightarrow> temporal d)"

section \<open>JSON-safe lists\<close>

subsection \<open>\<^verbatim>\<open>ndarray.tolist\<close>\<close>

text \<open>
  The date of a proleptic Gregorian ordinal (\<^verbatim>\<open>_ord2ymd\<close> of the standard library),
  which NumPy's conversion of a \<^verbatim>\<open>datetime64\<close> to a Python object agrees with.
\<close>

definition ord2ymd :: "int \<Rightarrow> int \<times> int \<times> int" where
  "ord2ymd n0 =
     (let n = n0 - 1;
          n400 = n div 146097; n = n mod 146097;
          n100 = n div 36524; n = n mod 36524;
          n4 = n div 1461; n = n mod 1461;
          n1 = n div 365; n = n mod 365;
          year = n400 * 400 + 1 + n100 * 100 + n4 * 4 + n1
      in if n1 = 4 \<or> n100 = 4 then (year - 1, 12, 31)
         else
           let leapyear = (n1 = 3 \<and> (n4 \<noteq> 24 \<or> n100 = 3));
               month = (n + 50) div 32;
               preceding = days_before_month_of leapyear month
           in if preceding > n
              then (year, month - 1, n - days_before_month_of leapyear (month - 1) + 1)
              else (year, month, n - preceding + 1))"

text \<open>
  The Python object of one time count: \<^verbatim>\<open>None\<close> for not-a-time and for the generic
  unit of a \<^verbatim>\<open>datetime64\<close>, the raw count for units finer than a microsecond and for
  years outside 1..9999, a \<^verbatim>\<open>date\<close> for units of a day or coarser, a
  \<^verbatim>\<open>datetime\<close> otherwise.
\<close>

definition datetime64_item :: "time_unit \<Rightarrow> int option \<Rightarrow> pyobj" where
  "datetime64_item u v =
     (case v of
        None \<Rightarrow> PyNone
      | Some n \<Rightarrow>
          if u = U_generic then PyNone
          else if u \<in> {U_ns, U_ps, U_fs, U_as} then PyInt n
          else
            let us = (case cast_datetime64_us u (Some n) of None \<Rightarrow> 0 | Some t \<Rightarrow> t);
                days = us div (86400 * 10 ^ 6);
                rest = us mod (86400 * 10 ^ 6);
                (y, mo, d) = ord2ymd (days + DT_EPOCH_ordinal)
            in if y < 1 \<or> y > 9999 then PyInt n
               else if u \<in> {U_Y, U_M, U_W, U_D} then PyDate y mo d
               else PyDatetime y mo d (rest div (3600 * 10 ^ 6)) (rest div (60 * 10 ^ 6) mod 60)
                      (rest div 10 ^ 6 mod 60) (rest mod 10 ^ 6))"

text \<open>
  A \<^verbatim>\<open>timedelta64\<close> count: \<^verbatim>\<open>None\<close> for not-a-time, the raw count for years,
  months, the generic unit, units finer than a microsecond and for more days than a
  \<^verbatim>\<open>timedelta\<close> holds, a \<^verbatim>\<open>timedelta\<close> otherwise.
\<close>

definition timedelta64_item :: "time_unit \<Rightarrow> int option \<Rightarrow> pyobj" where
  "timedelta64_item u v =
     (case v of
        None \<Rightarrow> PyNone
      | Some n \<Rightarrow>
          if u \<in> {U_Y, U_M, U_generic, U_ns, U_ps, U_fs, U_as} then PyInt n
          else
            let us = (case cast_timedelta64_us u (Some n) of None \<Rightarrow> 0 | Some t \<Rightarrow> t);
                days = us div (86400 * 10 ^ 6);
                rest = us mod (86400 * 10 ^ 6)
            in if days > 999999999 \<or> days < - 999999999 then PyInt n
               else PyTimedelta days (rest div 10 ^ 6) (rest mod 10 ^ 6))"

fun item :: "np_dtype \<Rightarrow> elem \<Rightarrow> pyobj" where
  "item d (E_bool b) = PyBool b"
| "item d (E_int n) = PyInt n"
| "item d (E_float f) = PyFloat f"
| "item d (E_complex re im) = PyComplex re im"
| "item d (E_obj x) = x"
| "item (D_datetime64 u) (E_time v) = datetime64_item u v"
| "item (D_timedelta64 u) (E_time v) = timedelta64_item u v"
| "item d (E_time v) = PyNone"

text \<open>
  Nesting the row-major elements by the shape: an array without dimensions gives its one
  element, not a list.
\<close>

fun nest :: "nat list \<Rightarrow> pyobj list \<Rightarrow> pyobj" where
  "nest [] xs = (case xs of [] \<Rightarrow> PyNone | x # _ \<Rightarrow> x)"
| "nest (n # ds) xs =
     PyList (map (\<lambda>i. nest ds (take (prod_list ds) (drop (i * prod_list ds) xs))) [0 ..< n])"

definition tolist :: "ndarray \<Rightarrow> pyobj" where
  "tolist a = nest (shape a) (map (item (dtype a)) (elems a))"

subsection \<open>Elementwise tests and masked assignment\<close>

fun elem_isfinite :: "elem \<Rightarrow> bool" where
  "elem_isfinite (E_float f) = isfinite f"
| "elem_isfinite _ = True"

fun elem_isnan :: "elem \<Rightarrow> bool" where
  "elem_isnan (E_float f) = isnan f"
| "elem_isnan _ = False"

fun elem_isposinf :: "elem \<Rightarrow> bool" where
  "elem_isposinf (E_float f) = (f = PosInf)"
| "elem_isposinf _ = False"

fun elem_isneginf :: "elem \<Rightarrow> bool" where
  "elem_isneginf (E_float f) = (f = NegInf)"
| "elem_isneginf _ = False"

text \<open>\<^verbatim>\<open>pd.isnull\<close> on one object of an object array.\<close>

fun pd_isnull :: "elem \<Rightarrow> bool" where
  "pd_isnull (E_obj PyNone) = True"
| "pd_isnull (E_obj (PyFloat f)) = isnan f"
| "pd_isnull (E_obj (NpFloat64 f)) = isnan f"
| "pd_isnull (E_obj PdNaT) = True"
| "pd_isnull (E_obj (NpDatetime64 None u)) = True"
| "pd_isnull (E_obj (NpTimedelta64 None u)) = True"
| "pd_isnull _ = False"

text \<open>\<^verbatim>\<open>array.astype('object')\<close>: each element as its Python object.\<close>

definition astype_object :: "ndarray \<Rightarrow> ndarray" where
  "astype_object a = a\<lparr>dtype := D_object, elems := map (\<lambda>e. E_obj (item (dtype a) e)) (elems a)\<rparr>"

text \<open>\<^verbatim>\<open>transformed[where] = value\<close> with a boolean array of the same shape.\<close>

definition setitem_where :: "ndarray \<Rightarrow> bool list \<Rightarrow> pyobj \<Rightarrow> ndarray" where
  "setitem_where a bs v = a\<lparr>elems := map (\<lambda>(b, e). if b then E_obj v else e) (zip bs (elems a))\<rparr>"

subsection \<open>\<^verbatim>\<open>transform_array_to_list\<close>\<close>

text \<open>
  The function is modelled on plain arrays, which is what \<^verbatim>\<open>transform_array\<close> hands
  on; \<open>pd\<close> is whether pandas is present.
\<close>

definition transform_array_to_list :: "bool \<Rightarrow> ndarray \<Rightarrow> pyobj" where
  "transform_array_to_list pd array =
     (if kind (dtype array) \<in> {CHR ''u'', CHR ''i'', CHR ''f''}
         \<and> list_ex (\<lambda>e. \<not> elem_isfinite e) (elems array) then
        (let transformed = astype_object array;
             transformed = setitem_where transformed (map elem_isnan (elems array)) (PyStr ''NaN'');
             transformed = setitem_where transformed (map elem_isposinf (elems array)) (PyStr ''Infinity'');
             transformed = setitem_where transformed (map elem_isneginf (elems array)) (PyStr ''-Infinity'')
         in tolist transformed)
      else if kind (dtype array) = CHR ''O'' \<and> pd \<and> list_ex pd_isnull (elems array) then
        (let transformed = astype_object array;
             transformed = setitem_where transformed (map pd_isnull (elems array)) (PyStr ''NaN'')
         in tolist transformed)
      else tolist array)"

section \<open>Binary buffer codec: decoding\<close>

subsection \<open>The buffer envelope\<close>

text \<open>
  \<^verbatim>\<open>BufferJson\<close>: the \<^verbatim>\<open>array\<close> field is a reference or a string; the fields are
  prefixed here, \<^verbatim>\<open>shape\<close> and \<^verbatim>\<open>dtype\<close> being fields of arrays already.
\<close>

datatype buffer_data = Ref string | Base64 string

datatype byte_order = Little | Big

record BufferJson =
  buf_array :: buffer_data
  buf_shape :: "int list"
  buf_dtype :: string
  buf_order :: byte_order

type_synonym byte = "8 word"

subsection \<open>\<^verbatim>\<open>base64.b64decode\<close>\<close>

text \<open>
  The standard library's decoder with its default, lenient settings: a string with a
  non-ASCII character is refused (\<^verbatim>\<open>ValueError\<close>); characters outside the alphabet
  are skipped; data characters are taken in groups of four, a group giving up to three
  bytes; padding that completes a group ends the input; a group left incomplete at the
  end is an error (\<^verbatim>\<open>binascii.Error\<close>).
\<close>

definition b64_value :: "char \<Rightarrow> nat option" where
  "b64_value c =
     (let n = (of_char c :: nat) in
      if 65 \<le> n \<and> n \<le> 90 then Some (n - 65)
      else if 97 \<le> n \<and> n \<le> 122 then Some (n - 71)
      else if 48 \<le> n \<and> n \<le> 57 then Some (n + 4)
      else if n = 43 then Some 62
      else if n = 47 then Some 63
      else None)"

text \<open>
  The loop of \<^verbatim>\<open>binascii.a2b_base64\<close>: the position in the group, the bits left over
  from the last character, the padding characters seen in a row, and the bytes so far.
\<close>

fun a2b_base64 :: "string \<Rightarrow> nat \<Rightarrow> nat \<Rightarrow> nat \<Rightarrow> byte list \<Rightarrow> error + byte list" where
  "a2b_base64 [] quad_pos leftchar pads out =
     (if quad_pos \<noteq> 0 then Inl BinasciiError else Inr out)"
| "a2b_base64 (c # cs) quad_pos leftchar pads out =
     (if c = CHR ''='' then
        (if quad_pos \<ge> 2 \<and> quad_pos + (pads + 1) \<ge> 4 then Inr out
         else a2b_base64 cs quad_pos leftchar (pads + 1) out)
      else
        (case b64_value c of
           None \<Rightarrow> a2b_base64 cs quad_pos leftchar pads out
         | Some v \<Rightarrow>
             if quad_pos = 0 then a2b_base64 cs 1 v 0 out
             else if quad_pos = 1 then
               a2b_base64 cs 2 (v mod 16) 0 (out @ [of_nat (leftchar * 4 + v div 16)])
             else if quad_pos = 2 then
               a2b_base64 cs 3 (v mod 4) 0 (out @ [of_nat (leftchar * 16 + v div 4)])
             else a2b_base64 cs 0 0 0 (out @ [of_nat (leftchar * 64 + v)])))"

definition b64decode :: "string \<Rightarrow> error + byte list" where
  "b64decode s =
     (if list_ex (\<lambda>c. (of_char c :: nat) \<ge> 128) s then Inl ValueError
      else a2b_base64 s 0 0 0 [])"

subsection \<open>\<^verbatim>\<open>np.frombuffer\<close>\<close>

text \<open>
  Which tags \<^verbatim>\<open>np.dtype\<close> understands, and as what, is NumPy's business: the
  function from tags to dtypes is a parameter of the model, \<open>None\<close> for a tag that is
  not understood (\<^verbatim>\<open>TypeError\<close>), and the theorems hold for every such function.
  Where a theorem is evaluated at a tag, the tag is the name NumPy itself gives the dtype
  (\<^verbatim>\<open>dtype.name\<close>), looked up in this table.
\<close>

definition dtype_names :: "(string \<times> np_dtype) list" where
  "dtype_names =
     [(''bool'', D_bool),
      (''int8'', D_int8), (''int16'', D_int16), (''int32'', D_int32), (''int64'', D_int64),
      (''uint8'', D_uint8), (''uint16'', D_uint16), (''uint32'', D_uint32), (''uint64'', D_uint64),
      (''float16'', D_float16), (''float32'', D_float32), (''float64'', D_float64),
      (''complex64'', D_complex64), (''complex128'', D_complex128),
      (''object'', D_object)]"

definition dtype_of_name :: "string \<Rightarrow> np_dtype option" where
  "dtype_of_name tag = map_of dtype_names tag"

text \<open>The bytes of one element, least significant first, as an unsigned number.\<close>

fun le_value :: "byte list \<Rightarrow> int" where
  "le_value [] = 0"
| "le_value (b # bs) = uint b + 256 * le_value bs"

definition signed_value :: "nat \<Rightarrow> int \<Rightarrow> int" where
  "signed_value bits n = (if n \<ge> 2 ^ (bits - 1) then n - 2 ^ bits else n)"

text \<open>An IEEE-754 binary float of the given exponent and fraction widths.\<close>

definition ieee_value :: "nat \<Rightarrow> nat \<Rightarrow> int \<Rightarrow> fl" where
  "ieee_value ebits fbits n =
     (let frac = n mod 2 ^ fbits;
          ex = (n div 2 ^ fbits) mod 2 ^ ebits;
          negative = ((n div 2 ^ (fbits + ebits)) mod 2 = 1);
          bias = (2 ^ (ebits - 1) - 1 :: int)
      in if ex = 2 ^ ebits - 1 then
           (if frac \<noteq> 0 then NaN else if negative then NegInf else PosInf)
         else
           let magnitude =
                 (if ex = 0 then of_int frac * pow2 (1 - bias - int fbits)
                  else of_int (2 ^ fbits + frac) * pow2 (ex - bias - int fbits))
           in Fin (if negative then - magnitude else magnitude))"

fun elem_of_bytes :: "np_dtype \<Rightarrow> byte list \<Rightarrow> elem" where
  "elem_of_bytes D_bool bs = E_bool (le_value bs \<noteq> 0)"
| "elem_of_bytes D_int8 bs = E_int (signed_value 8 (le_value bs))"
| "elem_of_bytes D_int16 bs = E_int (signed_value 16 (le_value bs))"
| "elem_of_bytes D_int32 bs = E_int (signed_value 32 (le_value bs))"
| "elem_of_bytes D_int64 bs = E_int (signed_value 64 (le_value bs))"
| "elem_of_bytes D_uint8 bs = E_int (le_value bs)"
| "elem_of_bytes D_uint16 bs = E_int (le_value bs)"
| "elem_of_bytes D_uint32 bs = E_int (le_value bs)"
| "elem_of_bytes D_uint64 bs = E_int (le_value bs)"
| "elem_of_bytes D_float16 bs = E_float (ieee_value 5 10 (le_value bs))"
| "elem_of_bytes D_float32 bs = E_float (ieee_value 8 23 (le_value bs))"
| "elem_of_bytes D_float64 bs = E_float (ieee_value 11 52 (le_value bs))"
| "elem_of_bytes D_complex64 bs =
     E_complex (ieee_value 8 23 (le_value (take 4 bs))) (ieee_value 8 23 (le_value (drop 4 bs)))"
| "elem_of_bytes D_complex128 bs =
     E_complex (ieee_value 11 52 (le_value (take 8 bs))) (ieee_value 11 52 (le_value (drop 8 bs)))"
| "elem_of_bytes D_object bs = E_obj PyNone"
| "elem_of_bytes (D_datetime64 u) bs =
     E_time (if le_value bs = 2 ^ 63 then None else Some (signed_value 64 (le_value bs)))"
| "elem_of_bytes (D_timedelta64 u) bs =
     E_time (if le_value bs = 2 ^ 63 then None else Some (signed_value 64 (le_value bs)))"

text \<open>
  \<^verbatim>\<open>np.copy(np.frombuffer(bytes, dtype=dtype))\<close>: the dtype must be understood, must
  not be \<^verbatim>\<open>object\<close>, and its item size must divide the number of bytes
  (\<^verbatim>\<open>ValueError\<close> otherwise); the result is a flat array of the elements.
\<close>

definition frombuffer ::
    "(string \<Rightarrow> np_dtype option) \<Rightarrow> byte list \<Rightarrow> string \<Rightarrow> error + ndarray" where
  "frombuffer np_dtype bytes tag =
     (case np_dtype tag of
        None \<Rightarrow> Inl TypeError
      | Some d \<Rightarrow>
          if d = D_object then Inl ValueError
          else if length bytes mod itemsize d \<noteq> 0 then Inl ValueError
          else
            let n = length bytes div itemsize d in
            Inr \<lparr>dtype = d, shape = [n],
                 elems = map (\<lambda>i. elem_of_bytes d (take (itemsize d) (drop (i * itemsize d) bytes))) [0 ..< n],
                 c_contiguous = True\<rparr>)"

subsection \<open>\<^verbatim>\<open>ndarray.reshape\<close>\<close>

text \<open>
  The new shape of an array of \<open>count\<close> elements: one dimension may be \<open>-1\<close> and is
  then inferred; any other negative dimension, a second \<open>-1\<close>, and a shape whose
  number of elements is not \<open>count\<close> raise \<^verbatim>\<open>ValueError\<close>.
\<close>

definition reshape_shape :: "nat \<Rightarrow> int list \<Rightarrow> error + nat list" where
  "reshape_shape count newshape =
     (if list_ex (\<lambda>d. d < - 1) newshape then Inl ValueError
      else if length (filter (\<lambda>d. d = - 1) newshape) > 1 then Inl ValueError
      else if list_ex (\<lambda>d. d = - 1) newshape then
        (let known = nat (prod_list (filter (\<lambda>d. d \<noteq> - 1) newshape)) in
         if known = 0 \<or> count mod known \<noteq> 0 then Inl ValueError
         else Inr (map (\<lambda>d. if d = - 1 then count div known else nat d) newshape))
      else if nat (prod_list newshape) \<noteq> count then Inl ValueError
      else Inr (map nat newshape))"

definition reshape :: "ndarray \<Rightarrow> int list \<Rightarrow> error + ndarray" where
  "reshape a newshape =
     (case reshape_shape (length (elems a)) newshape of
        Inl err \<Rightarrow> Inl err
      | Inr s \<Rightarrow> Inr (a\<lparr>shape := s\<rparr>))"

subsection \<open>\<^verbatim>\<open>decode_base64_dict\<close>\<close>

text \<open>The \<^verbatim>\<open>order\<close> field of the envelope is not read.\<close>

definition decode_base64_dict ::
    "(string \<Rightarrow> np_dtype option) \<Rightarrow> BufferJson \<Rightarrow> error + ndarray" where
  "decode_base64_dict np_dtype buffer =
     (let data = buf_array buffer; dtype = buf_dtype buffer; shape = buf_shape buffer in
      case data of
        Ref _ \<Rightarrow> Inl NotImplementedError
      | Base64 s \<Rightarrow>
          (case b64decode s of
             Inl err \<Rightarrow> Inl err
           | Inr bytes \<Rightarrow>
               (case frombuffer np_dtype bytes dtype of
                  Inl err \<Rightarrow> Inl err
                | Inr array \<Rightarrow>
                    if length shape > 1 then reshape array shape else Inr array)))"

section \<open>Identifier generator\<close>

text \<open>
  \<^verbatim>\<open>_simple_id = 999\<close> is the module-level counter. \<^verbatim>\<open>make_id\<close> reads
  \<^verbatim>\<open>settings.simple_ids()\<close> on every call, so the setting is an argument of each
  call; the random UUID string that \<^verbatim>\<open>uuid.uuid4()\<close> would produce is an argument
  too. The lock only serialises callers: the model is the sequential behaviour.
\<close>

definition digit_char :: "nat \<Rightarrow> char" where
  "digit_char d = ''0123456789'' ! d"

fun str_nat :: "nat \<Rightarrow> string" where
  "str_nat n = (if n < 10 then [digit_char n] else str_nat (n div 10) @ [digit_char (n mod 10)])"

declare str_nat.simps [simp del]

definition str_int :: "int \<Rightarrow> string" where
  "str_int i = (if i < 0 then CHR ''-'' # str_nat (nat (- i)) else str_nat (nat i))"

record id_state =
  simple_id :: int

definition initial_state :: id_state where
  "initial_state = \<lparr>simple_id = 999\<rparr>"

definition make_globally_unique_id :: "string \<Rightarrow> string" where
  "make_globally_unique_id uuid4 = uuid4"

definition make_id :: "bool \<Rightarrow> string \<Rightarrow> id_state \<Rightarrow> string \<times> id_state" where
  "make_id simple_ids uuid4 st =
     (if simple_ids then
        (let st' = st\<lparr>simple_id := simple_id st + 1\<rparr> in (str_int (simple_id st'), st'))
      else (make_globally_unique_id uuid4, st))"

text \<open>A run of calls, each with its setting and its random UUID, threading the counter.\<close>

fun make_ids :: "(bool \<times> string) list \<Rightarrow> id_state \<Rightarrow> string list \<times> id_state" where
  "make_ids [] st = ([], st)"
| "make_ids ((b, u) # cs) st =
     (let (i, st') = make_id b u st; (is, st'') = make_ids cs st' in (i # is, st''))"

text \<open>The identifiers that the simple-mode calls of a run return, in order.\<close>

fun simple_results :: "(bool \<times> string) list \<Rightarrow> string list \<Rightarrow> string list" where
  "simple_results ((b, u) # cs) (i # is) = (if b then i # simple_results cs is else simple_results cs is)"
| "simple_results _ _ = []"

section \<open>Properties of the temporal normalizer\<close>

text \<open>
  C6. With pandas present, \<^verbatim>\<open>convert_datetime_type\<close> of the not-a-time sentinel
  \<^verbatim>\<open>pd.NaT\<close> returns NaN: a float that the is-NaN predicate accepts and that float
  equality does not find equal to itself.
\<close>

theorem convert_datetime_type_NaT:
  "convert_datetime_type True PdNaT = Inr NaN \<and> isnan NaN \<and> \<not> fl_eq NaN NaN"
  by (simp add: convert_datetime_type_def)

lemma convert_timedelta_type_other:
  assumes "type_of obj \<noteq> T_timedelta" "type_of obj \<noteq> T_pd_Timedelta" "type_of obj \<noteq> T_np_timedelta64"
  shows "convert_timedelta_type obj = Inl ValueError"
  using assms by (cases obj) (simp_all add: convert_timedelta_type_def isinstance_def)

lemma convert_timedelta_type_native:
  "convert_timedelta_type (PyTimedelta days seconds us) =
     Inr (fl_mul (int_truediv ((days * 86400 + seconds) * 10 ^ 6 + us) (10 ^ 6)) (Fin 1000))"
  by (simp add: convert_timedelta_type_def isinstance_def)

text \<open>
  C7. The claim asks that every 64-bit duration is converted to its milliseconds, a
  float, as the docstring promises of any recognised timedelta value. The code misses it
  for a \<^verbatim>\<open>np.timedelta64\<close> counted in years or in months: such a value is a
  recognised timedelta, and \<^verbatim>\<open>obj / NP_MS_DELTA\<close> raises \<^verbatim>\<open>TypeError\<close> for it,
  whatever the count, where the claim has a float returned.
\<close>

theorem convert_timedelta_type_years_months:
  "is_timedelta_type (NpTimedelta64 v U_Y)
   \<and> convert_timedelta_type (NpTimedelta64 v U_Y) = Inl TypeError
   \<and> is_timedelta_type (NpTimedelta64 v U_M)
   \<and> convert_timedelta_type (NpTimedelta64 v U_M) = Inl TypeError
   \<and> convert_timedelta_type (NpTimedelta64 (Some 1) U_Y) = Inl TypeError"
  by (simp add: convert_timedelta_type_def is_timedelta_type_def isinstance_def timedelta64_div_ms_def)

text \<open>
  C8, as the claim states it, fails: a native \<^verbatim>\<open>date\<close> that is not a
  \<^verbatim>\<open>datetime\<close> is not an instance of any recognised class, so the answer for it is
  false, while the claim's set contains its type.
\<close>

theorem is_datetime_type_date_counterexample:
  "\<not> (is_datetime_type True (PyDate 2020 1 1) \<longleftrightarrow>
        type_of (PyDate 2020 1 1) \<in> {T_date, T_time, T_datetime, T_np_datetime64, T_pd_Timestamp, T_pd_NaTType})"
  by (simp add: is_datetime_type_def compute_datetime_types_def isinstance_def)

text \<open>
  C8, amended. \<^verbatim>\<open>is_datetime_type\<close> returns true if and only if the value's runtime
  type is the native \<^verbatim>\<open>time\<close>, the native \<^verbatim>\<open>datetime\<close>, \<^verbatim>\<open>np.datetime64\<close> or,
  with pandas present, \<^verbatim>\<open>pd.Timestamp\<close>, \<^verbatim>\<open>pd.Timedelta\<close>, \<^verbatim>\<open>pd.Period\<close> or
  the type of \<^verbatim>\<open>pd.NaT\<close>; a native \<^verbatim>\<open>date\<close> that is not a \<^verbatim>\<open>datetime\<close> is
  not recognised. (Objects of a pandas class exist only where pandas is present.)
\<close>

theorem is_datetime_type_iff:
  assumes "pd \<or> \<not> pandas_object obj"
  shows "is_datetime_type pd obj \<longleftrightarrow>
           type_of obj \<in> {T_time, T_datetime, T_np_datetime64}
           \<or> (pd \<and> type_of obj \<in> {T_pd_Timestamp, T_pd_Timedelta, T_pd_Period, T_pd_NaTType})"
  using assms
  by (cases obj)
     (auto simp add: is_datetime_type_def compute_datetime_types_def isinstance_def
        pandas_object_def)

theorem is_datetime_type_iff_witness:
  "(True \<or> \<not> pandas_object (PdTimedelta 5)) \<and> is_datetime_type True (PdTimedelta 5)
   \<and> (False \<or> \<not> pandas_object (PyDate 2020 1 1)) \<and> \<not> is_datetime_type False (PyDate 2020 1 1)"
  using is_datetime_type_iff [of True "PdTimedelta 5"] is_datetime_type_iff [of False "PyDate 2020 1 1"]
  by (simp add: pandas_object_def)

section \<open>Properties of the codec's eligibility test\<close>

text \<open>
  C1. An array is eligible for binary transfer, that is \<^verbatim>\<open>array_encoding_disabled\<close>
  is false, if and only if its dtype is one of float32, float64, uint8, int8, uint16,
  int16, uint32, int32: so it is for uint8, int32 and float64 arrays, and it is not for
  float16, int64, bool, object and temporal arrays.
\<close>

theorem array_encoding_disabled_whitelist:
  "(\<not> array_encoding_disabled array \<longleftrightarrow>
      dtype (data_of array) \<in> {D_float32, D_float64, D_uint8, D_int8, D_uint16, D_int16, D_uint32, D_int32})
   \<and> \<not> array_encoding_disabled (NDArray (a\<lparr>dtype := D_uint8\<rparr>))
   \<and> \<not> array_encoding_disabled (NDArray (a\<lparr>dtype := D_int32\<rparr>))
   \<and> \<not> array_encoding_disabled (NDArray (a\<lparr>dtype := D_float64\<rparr>))
   \<and> array_encoding_disabled (NDArray (a\<lparr>dtype := D_float16\<rparr>))
   \<and> array_encoding_disabled (NDArray (a\<lparr>dtype := D_int64\<rparr>))
   \<and> array_encoding_disabled (NDArray (a\<lparr>dtype := D_bool\<rparr>))
   \<and> array_encoding_disabled (NDArray (a\<lparr>dtype := D_object\<rparr>))
   \<and> array_encoding_disabled (NDArray (a\<lparr>dtype := D_datetime64 u\<rparr>))
   \<and> array_encoding_disabled (NDArray (a\<lparr>dtype := D_timedelta64 u\<rparr>))"
  by (simp add: array_encoding_disabled_def BINARY_ARRAY_TYPES_def)

section \<open>Properties of array normalization and of the transform pipeline\<close>

text \<open>
  C9. \<^verbatim>\<open>convert_datetime_array\<close> returns an input that is not an array as it is,
  without raising, whatever the object is.
\<close>

theorem convert_datetime_array_non_array:
  "convert_datetime_array conv (Obj x) = Inr (Obj x)"
  by simp

lemma true_divide_1000_cases:
  "(\<exists>x. true_divide_1000 array = Obj (NpFloat64 x))
   \<or> (\<exists>b. true_divide_1000 array = Arr b \<and> dtype (data_of b) = D_float64
          \<and> c_contiguous (data_of b) = (shape (data_of array) = [] \<or> c_contiguous (data_of array)))"
  by (cases array) (auto simp add: Let_def masked_constant_def)

lemma astype_int64_shape [simp]:
  "shape (data_of (astype_int64 array)) = shape (data_of array)"
  "c_contiguous (data_of (astype_int64 array)) = c_contiguous (data_of array)"
  by (cases array; simp add: astype_int64_def Let_def)+

lemma convert_datetime_array_result:
  assumes "convert_datetime_array conv (Arr array) = Inr v"
  shows "(\<exists>x. v = Obj (NpFloat64 x))
         \<or> (\<exists>b. v = Arr b \<and> \<not> temporal (dtype (data_of b)))"
proof -
  have div: "(\<exists>x. true_divide_1000 c = Obj (NpFloat64 x))
         \<or> (\<exists>b. true_divide_1000 c = Arr b \<and> \<not> temporal (dtype (data_of b)))" for c
    using true_divide_1000_cases [of c] by (auto simp add: temporal_def)
  show ?thesis
  proof (cases "temporal (dtype (data_of array))")
    case True
    with assms div show ?thesis
      by (auto simp add: temporal_def split: if_splits)
  next
    case False
    then have plain: "v = Arr array \<Longrightarrow> ?thesis" by simp
    from False assms div plain show ?thesis
      by (auto simp add: temporal_def split: if_splits sum.splits)
  qed
qed

lemma filled_nan_result:
  assumes "filled_nan array = Inr b"
  shows "\<not> is_masked_array b \<and> dtype (data_of b) = dtype (data_of array)
         \<and> c_contiguous (data_of b) = c_contiguous (data_of array)"
proof (cases array)
  case (NDArray a)
  with assms show ?thesis by simp
next
  case (MaskedArray a m)
  with assms show ?thesis
    by (cases m) (auto split: sum.splits if_splits)
qed

lemma transform_array_invariants:
  assumes "transform_array conv array = Inr r"
  shows "\<not> has_temporal_dtype r \<and> \<not> has_mask r \<and> flags_c_contiguous r = Inr True"
proof -
  from assms obtain v where v: "convert_datetime_array conv (Arr array) = Inr v"
    by (auto simp add: transform_array_def split: sum.splits)
  from convert_datetime_array_result [OF v] show ?thesis
  proof (elim disjE exE conjE)
    fix x assume "v = Obj (NpFloat64 x)"
    with assms v show ?thesis
      by (auto simp add: transform_array_def has_temporal_dtype_def temporal_def
          simp del: convert_datetime_array.simps)
  next
    fix b assume b: "v = Arr b" "\<not> temporal (dtype (data_of b))"
    show ?thesis
    proof (cases b)
      case (NDArray a)
      with assms v b show ?thesis
        by (auto simp add: transform_array_def has_temporal_dtype_def ascontiguousarray_def Let_def
            simp del: convert_datetime_array.simps split: if_splits)
    next
      case (MaskedArray a m)
      with assms v b obtain c where c: "filled_nan b = Inr c"
        by (auto simp add: transform_array_def simp del: convert_datetime_array.simps split: sum.splits)
      from filled_nan_result [OF c] b have props: "\<not> is_masked_array c" "\<not> temporal (dtype (data_of c))"
        by simp_all
      from props(1) obtain d where d: "c = NDArray d" by (cases c) simp_all
      from assms v b MaskedArray c d props show ?thesis
        by (auto simp add: transform_array_def has_temporal_dtype_def ascontiguousarray_def Let_def
            simp del: convert_datetime_array.simps split: if_splits)
    qed
  qed
qed

lemma transform_array_masked_float:
  assumes "kind (dtype a) = CHR ''f''"
  shows "\<exists>b. transform_array conv (MaskedArray a (Some msk)) = Inr (Arr (NDArray b))
             \<and> dtype b = dtype a
             \<and> elems b = map (\<lambda>(e, m). if m then E_float NaN else e) (zip (elems a) msk)"
  using assms by (simp add: transform_array_def ascontiguousarray_def Let_def)

lemma transform_array_masked_complex:
  assumes "kind (dtype a) = CHR ''c''"
  shows "\<exists>b. transform_array conv (MaskedArray a (Some msk)) = Inr (Arr (NDArray b))
             \<and> dtype b = dtype a
             \<and> elems b = map (\<lambda>(e, m). if m then E_complex NaN (Fin 0) else e) (zip (elems a) msk)"
  using assms by (simp add: transform_array_def ascontiguousarray_def Let_def)

lemma transform_array_masked_datetime:
  "transform_array conv
     (MaskedArray \<lparr>dtype = D_datetime64 U_us, shape = [2],
                   elems = [E_time (Some 2000), E_time (Some 3000)], c_contiguous = True\<rparr>
        (Some [True, False]))
   = Inr (Arr (NDArray \<lparr>dtype = D_float64, shape = [2], elems = [E_float NaN, E_float (Fin 3)],
                        c_contiguous = True\<rparr>))"
proof -
  have three: "fl_div_by (fl_of_int 3000) 1000 = Fin 3"
    by code_simp
  show ?thesis
    by (simp add: transform_array_def astype_int64_def astype_datetime64_us_def
        cast_datetime64_us_def scale_to_us_def int64_count_def wrap64_def three)
qed

lemma transform_array_masked_int:
  assumes "kind (dtype a) = CHR ''i'' \<or> kind (dtype a) = CHR ''u''"
  shows "transform_array conv (MaskedArray a (Some msk)) = Inl TypeError"
  using assms by (auto simp add: transform_array_def)

lemma transform_array_plain_returns:
  assumes "kind (dtype a) = CHR ''O'' \<longrightarrow> shape a \<noteq> []"
  shows "\<exists>r. transform_array conv (NDArray a) = Inr r"
proof -
  have conv: "\<exists>v. convert_datetime_array conv (Arr (NDArray a)) = Inr v
                 \<and> ((\<exists>x. v = Obj (NpFloat64 x)) \<or> (\<exists>b. v = Arr (NDArray b)))"
    using assms
    by (cases "shape a")
       (auto simp add: len_array_def astype_int64_def astype_datetime64_us_def
          astype_timedelta64_us_def object_astype_datetime64_us_def Let_def
          split: sum.splits)
  then obtain v where v: "convert_datetime_array conv (Arr (NDArray a)) = Inr v"
    and shape_v: "(\<exists>x. v = Obj (NpFloat64 x)) \<or> (\<exists>b. v = Arr (NDArray b))"
    by blast
  from shape_v v show ?thesis
    by (auto simp add: transform_array_def simp del: convert_datetime_array.simps)
qed

text \<open>
  C2. The claim asks that a masked input comes back dense, its masked positions replaced
  by NaN. The code misses it for the integer dtypes: on a masked array of 32-bit
  integers \<^verbatim>\<open>array.filled(np.nan)\<close>, the statement under the comment
  \<^verbatim>\<open>Set masked values to nan\<close>, raises \<^verbatim>\<open>TypeError\<close>, NaN being no integer, and
  it does so even where the mask array masks nothing. Masked arrays of the floating,
  complex and temporal dtypes do get their NaN (the lemmas above).
\<close>

theorem transform_array_masked_int_raises:
  "transform_array conv
     (MaskedArray \<lparr>dtype = D_int32, shape = [3], elems = [E_int 1, E_int 2, E_int 3],
                   c_contiguous = True\<rparr> (Some [False, True, False]))
   = Inl TypeError
   \<and> transform_array conv
     (MaskedArray \<lparr>dtype = D_int32, shape = [3], elems = [E_int 1, E_int 2, E_int 3],
                   c_contiguous = True\<rparr> (Some [False, False, False]))
   = Inl TypeError"
  by (simp add: transform_array_def)

section \<open>Properties of the JSON-list transform\<close>

lemma masked_assign_map:
  "map (\<lambda>(b, e). if b then v else e) (zip (map p xs) (map f xs)) =
     map (\<lambda>x. if p x then v else f x) xs"
  by (induction xs) simp_all

lemma setitem_where_fields [simp]:
  "dtype (setitem_where a bs v) = dtype a" "shape (setitem_where a bs v) = shape a"
  by (simp_all add: setitem_where_def)

lemma setitem_where_elems_map:
  assumes "elems a = map f xs"
  shows "elems (setitem_where a (map p xs) v) = map (\<lambda>x. if p x then E_obj v else f x) xs"
  using assms masked_assign_map [of "E_obj v" p xs f] by (simp add: setitem_where_def)

text \<open>
  C5. On an array of an integer or floating dtype with at least one non-finite element,
  \<^verbatim>\<open>transform_array_to_list\<close> returns the nested list of the elements in which NaN is
  the string "NaN", positive infinity "Infinity" and negative infinity "-Infinity",
  every finite element being the number it was; on [1.0, NaN, inf, -inf] it returns
  [1.0, "NaN", "Infinity", "-Infinity"].
\<close>

theorem transform_array_to_list_nonfinite:
  "(kind (dtype array) \<in> {CHR ''u'', CHR ''i'', CHR ''f''}
      \<and> (\<exists>e \<in> set (elems array). \<not> elem_isfinite e) \<longrightarrow>
    transform_array_to_list pd array =
      nest (shape array)
        (map (\<lambda>e. if e = E_float NaN then PyStr ''NaN''
                  else if e = E_float PosInf then PyStr ''Infinity''
                  else if e = E_float NegInf then PyStr ''-Infinity''
                  else item (dtype array) e) (elems array)))
   \<and> transform_array_to_list pd
        \<lparr>dtype = D_float64, shape = [4],
         elems = [E_float (Fin 1), E_float NaN, E_float PosInf, E_float NegInf],
         c_contiguous = True\<rparr>
      = PyList [PyFloat (Fin 1), PyStr ''NaN'', PyStr ''Infinity'', PyStr ''-Infinity'']"
proof -
  have general: "transform_array_to_list pd array =
      nest (shape array)
        (map (\<lambda>e. if e = E_float NaN then PyStr ''NaN''
                  else if e = E_float PosInf then PyStr ''Infinity''
                  else if e = E_float NegInf then PyStr ''-Infinity''
                  else item (dtype array) e) (elems array))"
    if k: "kind (dtype array) \<in> {CHR ''u'', CHR ''i'', CHR ''f''}"
      and nf: "\<exists>e \<in> set (elems array). \<not> elem_isfinite e"
  proof -
    let ?t0 = "astype_object array"
    let ?t1 = "setitem_where ?t0 (map elem_isnan (elems array)) (PyStr ''NaN'')"
    let ?t2 = "setitem_where ?t1 (map elem_isposinf (elems array)) (PyStr ''Infinity'')"
    let ?t3 = "setitem_where ?t2 (map elem_isneginf (elems array)) (PyStr ''-Infinity'')"
    have e0: "elems ?t0 = map (\<lambda>e. E_obj (item (dtype array) e)) (elems array)"
      by (simp add: astype_object_def)
    note e1 = setitem_where_elems_map [OF e0, of elem_isnan "PyStr ''NaN''"]
    note e2 = setitem_where_elems_map [OF e1, of elem_isposinf "PyStr ''Infinity''"]
    note e3 = setitem_where_elems_map [OF e2, of elem_isneginf "PyStr ''-Infinity''"]
    have sub: "item D_object (if elem_isneginf e then E_obj (PyStr ''-Infinity'')
                 else if elem_isposinf e then E_obj (PyStr ''Infinity'')
                 else if elem_isnan e then E_obj (PyStr ''NaN'')
                 else E_obj (item (dtype array) e)) =
               (if e = E_float NaN then PyStr ''NaN''
                  else if e = E_float PosInf then PyStr ''Infinity''
                  else if e = E_float NegInf then PyStr ''-Infinity''
                  else item (dtype array) e)" for e
    proof (cases e)
      case (E_float f)
      then show ?thesis by (cases f) simp_all
    qed simp_all
    have "tolist ?t3 = nest (shape array)
        (map (\<lambda>e. if e = E_float NaN then PyStr ''NaN''
                  else if e = E_float PosInf then PyStr ''Infinity''
                  else if e = E_float NegInf then PyStr ''-Infinity''
                  else item (dtype array) e) (elems array))"
      unfolding tolist_def e3 by (simp add: astype_object_def comp_def sub)
    moreover have "list_ex (\<lambda>e. \<not> elem_isfinite e) (elems array)"
      using nf by (simp add: list_ex_iff)
    ultimately show ?thesis
      using k by (simp add: transform_array_to_list_def Let_def)
  qed
  have example: "transform_array_to_list pd
        \<lparr>dtype = D_float64, shape = [4],
         elems = [E_float (Fin 1), E_float NaN, E_float PosInf, E_float NegInf],
         c_contiguous = True\<rparr>
      = PyList [PyFloat (Fin 1), PyStr ''NaN'', PyStr ''Infinity'', PyStr ''-Infinity'']"
    by (simp add: transform_array_to_list_def tolist_def astype_object_def setitem_where_def
        upt_conv_Cons)
  from general example show ?thesis by blast
qed

theorem transform_array_to_list_nonfinite_witness:
  "transform_array_to_list True
        \<lparr>dtype = D_float32, shape = [2, 2],
         elems = [E_float (Fin 3), E_float NegInf, E_float NaN, E_float (Fin (1 / 2))],
         c_contiguous = True\<rparr>
      = PyList [PyList [PyFloat (Fin 3), PyStr ''-Infinity''],
                PyList [PyStr ''NaN'', PyFloat (Fin (1 / 2))]]"
proof -
  let ?a = "\<lparr>dtype = D_float32, shape = [2, 2],
         elems = [E_float (Fin 3), E_float NegInf, E_float NaN, E_float (Fin (1 / 2))],
         c_contiguous = True\<rparr>"
  have hyp: "kind (dtype ?a) \<in> {CHR ''u'', CHR ''i'', CHR ''f''}
      \<and> (\<exists>e \<in> set (elems ?a). \<not> elem_isfinite e)"
    by simp
  from hyp transform_array_to_list_nonfinite [of ?a True] show ?thesis
    by (simp add: upt_conv_Cons)
qed

section \<open>Properties of buffer decoding\<close>

lemma a2b_base64_error:
  "a2b_base64 s quad_pos leftchar pads out = Inl err \<Longrightarrow> err = BinasciiError"
  by (induction s quad_pos leftchar pads out rule: a2b_base64.induct)
     (auto split: if_splits option.splits)

lemma b64decode_error:
  "b64decode s = Inl err \<Longrightarrow> err = ValueError \<or> err = BinasciiError"
  by (auto simp add: b64decode_def dest: a2b_base64_error split: if_splits)

lemma frombuffer_error:
  "frombuffer np_dtype bytes tag = Inl err \<Longrightarrow> err = TypeError \<or> err = ValueError"
  by (auto simp add: frombuffer_def Let_def split: option.splits if_splits)

lemma reshape_error:
  "reshape a newshape = Inl err \<Longrightarrow> err = ValueError"
  by (auto simp add: reshape_def reshape_shape_def Let_def split: sum.splits if_splits)

lemma frombuffer_success:
  "(\<exists>flat. frombuffer np_dtype bytes tag = Inr flat) \<longleftrightarrow>
     (\<exists>d. np_dtype tag = Some d \<and> d \<noteq> D_object \<and> length bytes mod itemsize d = 0)"
  by (auto simp add: frombuffer_def Let_def split: option.splits)

lemma frombuffer_flat:
  assumes "frombuffer np_dtype bytes tag = Inr flat"
  shows "shape flat = [length (elems flat)]"
    and "length (elems flat) * itemsize (dtype flat) = length bytes"
    and "np_dtype tag = Some (dtype flat)"
    and "length (elems flat) = length bytes div itemsize (dtype flat)"
  using assms
  by (auto simp add: frombuffer_def Let_def split: option.splits if_splits)

lemma decode_base64_dict_string:
  "decode_base64_dict np_dtype \<lparr>buf_array = Base64 s, buf_shape = shp, buf_dtype = tag, buf_order = ord\<rparr> =
     (case b64decode s of
        Inl err \<Rightarrow> Inl err
      | Inr bytes \<Rightarrow>
          (case frombuffer np_dtype bytes tag of
             Inl err \<Rightarrow> Inl err
           | Inr flat \<Rightarrow> if length shp > 1 then reshape flat shp else Inr flat))"
  by (simp add: decode_base64_dict_def Let_def)

lemma sample_bytes: "b64decode ''AAECAwQF'' = Inr [0, 1, 2, 3, 4, 5]"
  by code_simp

lemma sample_dtype: "dtype_of_name ''uint8'' = Some D_uint8"
  by code_simp

lemma sample_flat:
  "frombuffer dtype_of_name [0, 1, 2, 3, 4, 5] ''uint8'' =
     Inr \<lparr>dtype = D_uint8, shape = [6],
          elems = [E_int 0, E_int 1, E_int 2, E_int 3, E_int 4, E_int 5], c_contiguous = True\<rparr>"
  by code_simp

text \<open>
  C3, as the claim states it, fails: an envelope whose array field is a string can raise
  too. Here the string decodes to six bytes, which is no whole number of 32-bit
  integers.
\<close>

theorem decode_base64_dict_string_counterexample:
  "decode_base64_dict dtype_of_name
     \<lparr>buf_array = Base64 ''AAECAwQF'', buf_shape = [6], buf_dtype = ''int32'', buf_order = Little\<rparr>
   = Inl ValueError"
  by code_simp

text \<open>
  C3, amended. \<^verbatim>\<open>decode_base64_dict\<close> raises \<^verbatim>\<open>NotImplementedError\<close> if and only
  if the array field of the envelope is a reference. An envelope whose array field is a
  string raises the decoder's error when the string is not valid base64; when the string
  decodes and NumPy understands the dtype tag, the envelope is decoded without raising
  exactly when the dtype is not \<^verbatim>\<open>object\<close>, its item size divides the number of
  decoded bytes, and a shape of more than one dimension fits the number of elements.
\<close>

theorem decode_base64_dict_raises:
  "decode_base64_dict np_dtype \<lparr>buf_array = Ref r, buf_shape = shp, buf_dtype = tag, buf_order = ord\<rparr>
     = Inl NotImplementedError
   \<and> decode_base64_dict np_dtype \<lparr>buf_array = Base64 s, buf_shape = shp, buf_dtype = tag, buf_order = ord\<rparr>
     \<noteq> Inl NotImplementedError
   \<and> (b64decode s = Inl err \<longrightarrow>
        decode_base64_dict np_dtype \<lparr>buf_array = Base64 s, buf_shape = shp, buf_dtype = tag, buf_order = ord\<rparr>
          = Inl err)
   \<and> (b64decode s = Inr bytes \<and> np_dtype tag = Some d \<longrightarrow>
        ((\<exists>a. decode_base64_dict np_dtype
                 \<lparr>buf_array = Base64 s, buf_shape = shp, buf_dtype = tag, buf_order = ord\<rparr> = Inr a) \<longleftrightarrow>
           d \<noteq> D_object \<and> length bytes mod itemsize d = 0
           \<and> (length shp > 1 \<longrightarrow>
                (\<exists>sh. reshape_shape (length bytes div itemsize d) shp = Inr sh))))"
proof -
  let ?dec = "decode_base64_dict np_dtype
     \<lparr>buf_array = Base64 s, buf_shape = shp, buf_dtype = tag, buf_order = ord\<rparr>"
  have ref: "decode_base64_dict np_dtype
      \<lparr>buf_array = Ref r, buf_shape = shp, buf_dtype = tag, buf_order = ord\<rparr> = Inl NotImplementedError"
    by (simp add: decode_base64_dict_def)
  have other: "?dec \<noteq> Inl NotImplementedError"
  proof
    assume raised: "?dec = Inl NotImplementedError"
    show False
    proof (cases "b64decode s")
      case (Inl e)
      with raised b64decode_error [of s e] show False
        by (simp add: decode_base64_dict_string)
    next
      case decoded: (Inr bs)
      show False
      proof (cases "frombuffer np_dtype bs tag")
        case (Inl e)
        with raised decoded frombuffer_error [of np_dtype bs tag e] show False
          by (simp add: decode_base64_dict_string)
      next
        case (Inr flat)
        with raised decoded reshape_error [of flat shp NotImplementedError] show False
          by (simp add: decode_base64_dict_string split: if_splits)
      qed
    qed
  qed
  have invalid: "?dec = Inl err" if "b64decode s = Inl err"
    using that by (simp add: decode_base64_dict_string)
  have returns: "(\<exists>a. ?dec = Inr a) \<longleftrightarrow>
           d \<noteq> D_object \<and> length bytes mod itemsize d = 0
           \<and> (length shp > 1 \<longrightarrow>
                (\<exists>sh. reshape_shape (length bytes div itemsize d) shp = Inr sh))"
    if decoded: "b64decode s = Inr bytes" and understood: "np_dtype tag = Some d"
  proof (cases "frombuffer np_dtype bytes tag")
    case (Inl e)
    with frombuffer_success [of np_dtype bytes tag] understood
    have "\<not> (d \<noteq> D_object \<and> length bytes mod itemsize d = 0)"
      by auto
    with decoded Inl show ?thesis
      by (auto simp add: decode_base64_dict_string)
  next
    case (Inr flat)
    note flat = frombuffer_flat [OF Inr]
    from flat(3) understood have d: "dtype flat = d" by simp
    from Inr understood have ok: "d \<noteq> D_object \<and> length bytes mod itemsize d = 0"
      by (auto simp add: frombuffer_def Let_def split: if_splits)
    have "(\<exists>a. reshape flat shp = Inr a) \<longleftrightarrow>
              (\<exists>sh. reshape_shape (length bytes div itemsize d) shp = Inr sh)"
      using flat(4) d by (auto simp add: reshape_def split: sum.splits)
    with decoded Inr ok show ?thesis
      by (auto simp add: decode_base64_dict_string)
  qed
  from ref other invalid returns show ?thesis by auto
qed

theorem decode_base64_dict_raises_witness:
  "decode_base64_dict dtype_of_name
     \<lparr>buf_array = Ref ''1001'', buf_shape = [2, 3], buf_dtype = ''uint8'', buf_order = Little\<rparr>
     = Inl NotImplementedError
   \<and> (\<exists>a. decode_base64_dict dtype_of_name
          \<lparr>buf_array = Base64 ''AAECAwQF'', buf_shape = [2, 3], buf_dtype = ''uint8'', buf_order = Little\<rparr>
          = Inr a)
   \<and> decode_base64_dict dtype_of_name
        \<lparr>buf_array = Base64 ''AAA'', buf_shape = [2, 3], buf_dtype = ''uint8'', buf_order = Little\<rparr>
        = Inl BinasciiError"
proof -
  have fits: "D_uint8 \<noteq> D_object \<and> length [0, 1, 2, 3, 4, 5 :: byte] mod itemsize D_uint8 = 0
      \<and> (length [2, 3 :: int] > 1 \<longrightarrow>
      (\<exists>sh. reshape_shape (length [0, 1, 2, 3, 4, 5 :: byte] div itemsize D_uint8) [2, 3] = Inr sh))"
    by (simp add: reshape_shape_def)
  have bad: "b64decode ''AAA'' = Inl BinasciiError"
    by code_simp
  from fits sample_bytes sample_dtype bad
    decode_base64_dict_raises [of dtype_of_name "''1001''" "[2, 3]" "''uint8''" Little "''AAECAwQF''"
      ValueError "[0, 1, 2, 3, 4, 5]" D_uint8]
    decode_base64_dict_raises [of dtype_of_name "''1001''" "[2, 3]" "''uint8''" Little "''AAA''"
      BinasciiError "[0, 1, 2, 3, 4, 5]" D_uint8]
  show ?thesis by simp
qed

text \<open>
  C4. For an envelope whose array field is a string that decodes to a flat array (one
  dimension: the number of decoded bytes divided by the item size of the dtype),
  \<^verbatim>\<open>decode_base64_dict\<close> returns that flat array as it is when the shape of the
  envelope has no or one dimension, whatever that shape says, and the flat array
  reshaped to the shape of the envelope when it has more than one: the result then has
  the shape of the envelope and the elements of the flat array.
\<close>

theorem decode_base64_dict_reshape:
  assumes "b64decode s = Inr bytes" and "frombuffer np_dtype bytes tag = Inr flat"
  shows "shape flat = [length bytes div itemsize (dtype flat)]
     \<and> (length shp \<le> 1 \<longrightarrow>
          decode_base64_dict np_dtype
            \<lparr>buf_array = Base64 s, buf_shape = shp, buf_dtype = tag, buf_order = ord\<rparr>
            = Inr flat)
     \<and> (length shp > 1 \<longrightarrow>
          decode_base64_dict np_dtype
            \<lparr>buf_array = Base64 s, buf_shape = shp, buf_dtype = tag, buf_order = ord\<rparr>
            = reshape flat shp)
     \<and> (length shp > 1 \<and> (\<forall>n \<in> set shp. 0 \<le> n) \<and> prod_list shp = int (length (elems flat)) \<longrightarrow>
          decode_base64_dict np_dtype
            \<lparr>buf_array = Base64 s, buf_shape = shp, buf_dtype = tag, buf_order = ord\<rparr>
            = Inr (flat\<lparr>shape := map nat shp\<rparr>))"
proof -
  note flat = frombuffer_flat [OF assms(2)]
  have one: "shape flat = [length bytes div itemsize (dtype flat)]"
    using flat(1,4) by simp
  have keep: "decode_base64_dict np_dtype
      \<lparr>buf_array = Base64 s, buf_shape = shp, buf_dtype = tag, buf_order = ord\<rparr> = Inr flat"
    if "length shp \<le> 1"
    using that assms by (simp add: decode_base64_dict_string)
  have resh: "decode_base64_dict np_dtype
      \<lparr>buf_array = Base64 s, buf_shape = shp, buf_dtype = tag, buf_order = ord\<rparr> = reshape flat shp"
    if "length shp > 1"
    using that assms by (simp add: decode_base64_dict_string)
  have fit: "reshape flat shp = Inr (flat\<lparr>shape := map nat shp\<rparr>)"
    if nonneg: "\<forall>n \<in> set shp. 0 \<le> n" and count: "prod_list shp = int (length (elems flat))"
  proof -
    have "\<not> list_ex (\<lambda>d. d < - 1) shp" "\<not> list_ex (\<lambda>d. d = - 1) shp"
      using nonneg by (auto simp add: list_ex_iff)
    moreover have "filter (\<lambda>d. d = - 1) shp = []"
      using nonneg by (auto simp add: filter_empty_conv)
    moreover have "nat (prod_list shp) = length (elems flat)"
      using count by simp
    ultimately show ?thesis
      by (simp add: reshape_def reshape_shape_def)
  qed
  from one keep resh fit show ?thesis by simp
qed

theorem decode_base64_dict_reshape_witness:
  "decode_base64_dict dtype_of_name
     \<lparr>buf_array = Base64 ''AAECAwQF'', buf_shape = [2, 3], buf_dtype = ''uint8'', buf_order = Little\<rparr>
     = Inr \<lparr>dtype = D_uint8, shape = [2, 3],
            elems = [E_int 0, E_int 1, E_int 2, E_int 3, E_int 4, E_int 5], c_contiguous = True\<rparr>
   \<and> decode_base64_dict dtype_of_name
     \<lparr>buf_array = Base64 ''AAECAwQF'', buf_shape = [4], buf_dtype = ''uint8'', buf_order = Little\<rparr>
     = Inr \<lparr>dtype = D_uint8, shape = [6],
            elems = [E_int 0, E_int 1, E_int 2, E_int 3, E_int 4, E_int 5], c_contiguous = True\<rparr>
   \<and> decode_base64_dict dtype_of_name
     \<lparr>buf_array = Base64 ''AAECAwQF'', buf_shape = [], buf_dtype = ''uint8'', buf_order = Little\<rparr>
     = Inr \<lparr>dtype = D_uint8, shape = [6],
            elems = [E_int 0, E_int 1, E_int 2, E_int 3, E_int 4, E_int 5], c_contiguous = True\<rparr>"
  using decode_base64_dict_reshape [OF sample_bytes sample_flat, of "[2, 3]" Little]
    decode_base64_dict_reshape [OF sample_bytes sample_flat, of "[4]" Little]
    decode_base64_dict_reshape [OF sample_bytes sample_flat, of "[]" Little]
  by (simp add: reshape_def reshape_shape_def)

section \<open>Properties of the identifier generator\<close>

lemma make_ids_simple_results:
  "simple_results cs (fst (make_ids cs st)) =
     map (\<lambda>k. str_int (simple_id st + 1 + int k)) [0 ..< length (filter fst cs)]"
proof (induction cs arbitrary: st)
  case Nil
  show ?case by simp
next
  case (Cons c cs)
  obtain b u where c: "c = (b, u)" by (cases c)
  show ?case
  proof (cases b)
    case True
    let ?st = "st\<lparr>simple_id := simple_id st + 1\<rparr>"
    have "map (\<lambda>k. str_int (simple_id st + 1 + int k)) [0 ..< Suc (length (filter fst cs))] =
          str_int (simple_id st + 1) # map (\<lambda>k. str_int (simple_id ?st + 1 + int k)) [0 ..< length (filter fst cs)]"
      by (simp add: upt_conv_Cons map_Suc_upt [symmetric] algebra_simps del: upt_Suc)
    with Cons [of ?st] c True show ?thesis
      by (simp add: make_id_def Let_def split_beta)
  next
    case False
    with Cons [of st] c show ?thesis
      by (simp add: make_id_def Let_def split_beta)
  qed
qed

text \<open>
  C10. The counter starts at 999, so the first simple-mode call of a process returns
  "1000"; a simple-mode call in any state returns the decimal string of the counter plus
  one and stores that value; and in any run of calls from the initial state, whatever
  global-mode calls come in between, the simple-mode calls return "1000", "1001", ... in
  order.
\<close>

theorem make_id_simple_counter:
  "simple_id initial_state = 999
   \<and> fst (make_id True u initial_state) = ''1000''
   \<and> make_id True u st = (str_int (simple_id st + 1), st\<lparr>simple_id := simple_id st + 1\<rparr>)
   \<and> make_id False u st = (u, st)
   \<and> simple_results cs (fst (make_ids cs initial_state)) =
       map (\<lambda>k. str_int (1000 + int k)) [0 ..< length (filter fst cs)]"
proof -
  have "str_int 1000 = ''1000''"
    by (simp add: str_int_def str_nat.simps digit_char_def)
  moreover have "simple_results cs (fst (make_ids cs initial_state)) =
       map (\<lambda>k. str_int (1000 + int k)) [0 ..< length (filter fst cs)]"
    using make_ids_simple_results [of cs initial_state] by (simp add: initial_state_def)
  ultimately show ?thesis
    by (simp add: make_id_def make_globally_unique_id_def initial_state_def Let_def)
qed


end
